theory Spec2Isabelle
  imports Complex_Main
begin

section \<open>JavaScript numbers\<close>

text \<open>
  The comparator of \<^verbatim>\<open>src/utils\<close> works on JavaScript numbers, which are IEEE 754
  doubles. A number is modelled as one of the three special values or a finite value, and
  a finite value is the real it denotes. The result of an operation on finite values is
  the real result rounded to the nearest double, ties to the even significand, and an
  infinity when the rounded result leaves the range (\<^verbatim>\<open>to_double\<close> below). The two zeros
  are one value: the code below never divides by a negative zero (every divisor is a
  product of square roots of sums that start at \<^verbatim>\<open>0\<close>), and neither \<^verbatim>\<open>></\<close>,
  \<^verbatim>\<open><\<close> nor the JSON response tells them apart. The special cases of each operator
  are those of ECMAScript.
\<close>

datatype jsnum = NaN | NegInf | PosInf | Fin real

text \<open>The infinity of a given sign.\<close>

definition signed_inf :: "bool \<Rightarrow> jsnum" where
  "signed_inf negative = (if negative then NegInf else PosInf)"

text \<open>The nearest integer, the even one of two that are equally near.\<close>

definition round_even :: "real \<Rightarrow> int" where
  "round_even q =
     (let f = \<lfloor>q\<rfloor>; d = q - of_int f
      in if d < 1 / 2 then f else if 1 / 2 < d then f + 1 else if even f then f else f + 1)"

text \<open>
  The binary exponent of a nonzero real as a double sees it: that of its leading bit, and
  \<open>-1022\<close> in the subnormal range.
\<close>

definition expo :: "real \<Rightarrow> int" where
  "expo x = max \<lfloor>log 2 \<bar>x\<bar>\<rfloor> (- 1022)"

text \<open>
  The double that an operation with the real result \<open>x\<close> returns: \<open>x\<close> rounded to a
  multiple of the unit in the last of 53 significant bits, or an infinity from
  \<open>2\<^sup>1\<^sup>0\<^sup>2\<^sup>4\<close> on.
\<close>

definition to_double :: "real \<Rightarrow> jsnum" where
  "to_double x =
     (if x = 0 then Fin 0
      else let ulp = 2 powi (expo x - 52);
               r = of_int (round_even (x / ulp)) * ulp
           in if 2 ^ 1024 \<le> \<bar>r\<bar> then signed_inf (r < 0) else Fin r)"

text \<open>\<^verbatim>\<open>x + y\<close>\<close>

fun jadd :: "jsnum \<Rightarrow> jsnum \<Rightarrow> jsnum" where
  "jadd NaN _ = NaN"
| "jadd _ NaN = NaN"
| "jadd PosInf NegInf = NaN"
| "jadd NegInf PosInf = NaN"
| "jadd PosInf _ = PosInf"
| "jadd _ PosInf = PosInf"
| "jadd NegInf _ = NegInf"
| "jadd _ NegInf = NegInf"
| "jadd (Fin x) (Fin y) = to_double (x + y)"

text \<open>\<^verbatim>\<open>x * y\<close>\<close>

fun jmul :: "jsnum \<Rightarrow> jsnum \<Rightarrow> jsnum" where
  "jmul NaN _ = NaN"
| "jmul _ NaN = NaN"
| "jmul PosInf PosInf = PosInf"
| "jmul PosInf NegInf = NegInf"
| "jmul NegInf PosInf = NegInf"
| "jmul NegInf NegInf = PosInf"
| "jmul PosInf (Fin y) = (if y = 0 then NaN else signed_inf (y < 0))"
| "jmul NegInf (Fin y) = (if y = 0 then NaN else signed_inf (0 < y))"
| "jmul (Fin x) PosInf = (if x = 0 then NaN else signed_inf (x < 0))"
| "jmul (Fin x) NegInf = (if x = 0 then NaN else signed_inf (0 < x))"
| "jmul (Fin x) (Fin y) = to_double (x * y)"

text \<open>\<^verbatim>\<open>x / y\<close>; a finite zero divisor is the positive zero.\<close>

fun jdiv :: "jsnum \<Rightarrow> jsnum \<Rightarrow> jsnum" where
  "jdiv NaN _ = NaN"
| "jdiv _ NaN = NaN"
| "jdiv PosInf PosInf = NaN"
| "jdiv PosInf NegInf = NaN"
| "jdiv NegInf PosInf = NaN"
| "jdiv NegInf NegInf = NaN"
| "jdiv PosInf (Fin y) = signed_inf (y < 0)"
| "jdiv NegInf (Fin y) = signed_inf (0 \<le> y)"
| "jdiv (Fin x) PosInf = Fin 0"
| "jdiv (Fin x) NegInf = Fin 0"
| "jdiv (Fin x) (Fin y) =
     (if y = 0 then (if x = 0 then NaN else signed_inf (x < 0)) else to_double (x / y))"

text \<open>\<^verbatim>\<open>Math.sqrt(x)\<close>, the correctly rounded square root that the engines compute\<close>

fun jsqrt :: "jsnum \<Rightarrow> jsnum" where
  "jsqrt NaN = NaN"
| "jsqrt NegInf = NaN"
| "jsqrt PosInf = PosInf"
| "jsqrt (Fin x) = (if x < 0 then NaN else to_double (sqrt x))"

text \<open>\<^verbatim>\<open>x > y\<close>: false as soon as one side is \<^verbatim>\<open>NaN\<close>.\<close>

fun jgt :: "jsnum \<Rightarrow> jsnum \<Rightarrow> bool" where
  "jgt NaN _ = False"
| "jgt _ NaN = False"
| "jgt PosInf PosInf = False"
| "jgt PosInf _ = True"
| "jgt _ PosInf = False"
| "jgt NegInf _ = False"
| "jgt _ NegInf = True"
| "jgt (Fin x) (Fin y) = (y < x)"

text \<open>\<^verbatim>\<open>x < y\<close>\<close>

definition jlt :: "jsnum \<Rightarrow> jsnum \<Rightarrow> bool" where
  "jlt x y = jgt y x"

text \<open>\<^verbatim>\<open>x >= y\<close>, which is not the negation of \<^verbatim>\<open>x < y\<close> when a side is \<^verbatim>\<open>NaN\<close>.\<close>

definition jge :: "jsnum \<Rightarrow> jsnum \<Rightarrow> bool" where
  "jge x y = (x \<noteq> NaN \<and> y \<noteq> NaN \<and> \<not> jgt y x)"

section \<open>The comparator\<close>

text \<open>
  \<^verbatim>\<open>b[i]\<close> as an operand of \<^verbatim>\<open>*\<close>: past the end of the array the read gives
  \<^verbatim>\<open>undefined\<close>, which the multiplication converts to \<^verbatim>\<open>NaN\<close>.
\<close>

definition at_num :: "jsnum list \<Rightarrow> nat \<Rightarrow> jsnum" where
  "at_num b i = (if i < length b then b ! i else NaN)"

text \<open>
  \<^verbatim>\<open>a.reduce((sum, ai, i) => sum + ai * b[i], 0)\<close>: the remaining elements of \<^verbatim>\<open>a\<close>, the
  index of the next one and the accumulator \<^verbatim>\<open>sum\<close>.
\<close>

fun reduce_dot :: "jsnum list \<Rightarrow> jsnum list \<Rightarrow> nat \<Rightarrow> jsnum \<Rightarrow> jsnum" where
  "reduce_dot [] b i acc = acc"
| "reduce_dot (ai # as) b i acc = reduce_dot as b (Suc i) (jadd acc (jmul ai (at_num b i)))"

text \<open>\<^verbatim>\<open>a.reduce((sum, ai) => sum + ai * ai, 0)\<close>\<close>

fun reduce_sq :: "jsnum list \<Rightarrow> jsnum \<Rightarrow> jsnum" where
  "reduce_sq [] acc = acc"
| "reduce_sq (ai # as) acc = reduce_sq as (jadd acc (jmul ai ai))"

definition cosineSimilarity :: "jsnum list \<Rightarrow> jsnum list \<Rightarrow> jsnum" where
  "cosineSimilarity a b =
     (let dot = reduce_dot a b 0 (Fin 0);
          magA = jsqrt (reduce_sq a (Fin 0));
          magB = jsqrt (reduce_sq b (Fin 0))
      in jdiv dot (jmul magA magB))"

subsection \<open>Cosine similarity as the description words it\<close>

definition dot_product :: "real list \<Rightarrow> real list \<Rightarrow> real" where
  "dot_product a b = (\<Sum>i<length a. a ! i * b ! i)"

definition euclidean_norm :: "real list \<Rightarrow> real" where
  "euclidean_norm a = sqrt (\<Sum>x\<leftarrow>a. x\<^sup>2)"

definition cosine_spec :: "real list \<Rightarrow> real list \<Rightarrow> real" where
  "cosine_spec a b = dot_product a b / (euclidean_norm a * euclidean_norm b)"

section \<open>The worker's collaborators\<close>

text \<open>
  Everything thrown inside a handler's \<^verbatim>\<open>try\<close> block ends in its \<^verbatim>\<open>catch\<close>; the model
  names the sources of such exceptions.
\<close>

datatype exn =
    BodyError         \<comment> \<open>\<^verbatim>\<open>c.req.json()\<close> rejects the request body\<close>
  | RenderError       \<comment> \<open>the QR library throws\<close>
  | AiError           \<comment> \<open>\<^verbatim>\<open>c.env.AI.run\<close> rejects\<close>
  | StoreError        \<comment> \<open>a call to R2 or D1 rejects\<close>
  | ConstraintError   \<comment> \<open>D1 reports the violated \<^verbatim>\<open>PRIMARY KEY\<close> of \<^verbatim>\<open>entries\<close>\<close>
  | SyntaxError       \<comment> \<open>\<^verbatim>\<open>JSON.parse\<close> throws\<close>
  | TypeError         \<comment> \<open>a property of \<^verbatim>\<open>null\<close> is read\<close>

text \<open>
  A row of the table \<^verbatim>\<open>entries\<close> of \<^verbatim>\<open>migrations/0001_initial.sql\<close>. The column
  \<^verbatim>\<open>embedding\<close> is the JSON text that \<^verbatim>\<open>/encode\<close> wrote.
\<close>

record entry =
  entry_id :: string
  entry_text :: string
  embedding :: string
  created_at :: string

text \<open>
  What the handlers do to the outside, in order: the calls to the collaborators and the
  lines written to the console.
\<close>

datatype event =
    Render string
  | Put string string
  | AiRun string
  | Insert string string string
  | SelectAll
  | Get string
  | Log_encode_response "jsnum list list"
  | Log_encode_length nat
  | Error_encode exn
  | Log_searching string
  | Log_query_response "jsnum list list"
  | Log_query_length nat
  | Log_found nat
  | Log_score string jsnum
  | Log_best "string option" jsnum
  | Log_qr_missing string
  | Error_query exn

text \<open>
  The collaborators are parameters of the model: the QR library behind
  \<^verbatim>\<open>generateQRCodeSVG\<close>, the embedding model behind \<^verbatim>\<open>c.env.AI.run\<close> (its answer is the
  field \<^verbatim>\<open>data\<close>, an array of vectors), \<^verbatim>\<open>JSON.stringify\<close> and \<^verbatim>\<open>JSON.parse\<close> on
  vectors, the clock behind \<^verbatim>\<open>CURRENT_TIMESTAMP\<close>, and whether a call to the bucket or to
  the database rejects.
\<close>

record env =
  render :: "string \<Rightarrow> exn + string"
  ai_run :: "string \<Rightarrow> exn + jsnum list list"
  json_stringify :: "jsnum list \<Rightarrow> string"
  json_parse :: "string \<Rightarrow> exn + jsnum list"
  now :: string
  bucket_fault :: bool
  db_fault :: bool

text \<open>The R2 bucket, the D1 table in the order \<^verbatim>\<open>SELECT *\<close> lists it, and the events so far.\<close>

record world =
  bucket :: "string \<rightharpoonup> string"
  entries :: "entry list"
  trace :: "event list"

definition emit :: "event \<Rightarrow> world \<Rightarrow> world" where
  "emit e w = w\<lparr>trace := trace w @ [e]\<rparr>"

text \<open>\<^verbatim>\<open>generateQRCodeSVG(text)\<close>, whose content is \<^verbatim>\<open>text || "https://workers.dev"\<close>\<close>

definition generateQRCodeSVG :: "env \<Rightarrow> string \<Rightarrow> world \<Rightarrow> (exn + string) \<times> world" where
  "generateQRCodeSVG env text w =
     (let content = (if text = [] then ''https://workers.dev'' else text)
      in (render env content, emit (Render content) w))"

text \<open>\<^verbatim>\<open>c.env.QR_BUCKET.put(key, value)\<close>\<close>

definition bucket_put :: "env \<Rightarrow> string \<Rightarrow> string \<Rightarrow> world \<Rightarrow> (exn + unit) \<times> world" where
  "bucket_put env key v w =
     (let w1 = emit (Put key v) w
      in if bucket_fault env then (Inl StoreError, w1)
         else (Inr (), w1\<lparr>bucket := (bucket w1)(key \<mapsto> v)\<rparr>))"

text \<open>\<^verbatim>\<open>c.env.QR_BUCKET.get(key)\<close>, \<^verbatim>\<open>null\<close> for a key that is not there\<close>

definition bucket_get :: "env \<Rightarrow> string \<Rightarrow> world \<Rightarrow> (exn + string option) \<times> world" where
  "bucket_get env key w =
     (let w1 = emit (Get key) w
      in if bucket_fault env then (Inl StoreError, w1) else (Inr (bucket w1 key), w1))"

text \<open>\<^verbatim>\<open>c.env.AI.run('@cf/baai/bge-base-en-v1.5', { text })\<close>\<close>

definition AI_run :: "env \<Rightarrow> string \<Rightarrow> world \<Rightarrow> (exn + jsnum list list) \<times> world" where
  "AI_run env text w = (ai_run env text, emit (AiRun text) w)"

text \<open>\<^verbatim>\<open>resp.data[0] || resp.data\<close>: an array is truthy, also an empty one.\<close>

definition first_or_self :: "jsnum list list \<Rightarrow> jsnum list" where
  "first_or_self data = (case data of [] \<Rightarrow> [] | v # _ \<Rightarrow> v)"

text \<open>
  \<^verbatim>\<open>INSERT INTO entries (id, text, embedding) VALUES (?, ?, ?)\<close>: \<^verbatim>\<open>id\<close> is the primary
  key, \<^verbatim>\<open>created_at\<close> takes its default.
\<close>

definition db_insert :: "env \<Rightarrow> string \<Rightarrow> string \<Rightarrow> string \<Rightarrow> world \<Rightarrow> (exn + unit) \<times> world" where
  "db_insert env i t e w =
     (let w1 = emit (Insert i t e) w
      in if db_fault env then (Inl StoreError, w1)
         else if i \<in> set (map entry_id (entries w1)) then (Inl ConstraintError, w1)
         else (Inr (), w1\<lparr>entries := entries w1 @
                 [\<lparr>entry_id = i, entry_text = t, embedding = e, created_at = now env\<rparr>]\<rparr>))"

text \<open>\<^verbatim>\<open>SELECT * FROM entries\<close>\<close>

definition db_select_all :: "env \<Rightarrow> world \<Rightarrow> (exn + entry list) \<times> world" where
  "db_select_all env w =
     (let w1 = emit SelectAll w
      in if db_fault env then (Inl StoreError, w1) else (Inr (entries w1), w1))"

section \<open>Requests and responses\<close>

text \<open>
  The JSON body of a request: \<^verbatim>\<open>c.req.json()\<close> rejects it, or it is an object whose
  fields of interest are absent or strings (a string is its list of characters).
\<close>

datatype 'a body = Unparsable | Body 'a

record encode_data =
  text_field :: "string option"
  id_field :: "string option"

record query_data =
  prompt_field :: "string option"

datatype payload =
    Success
  | Error_message string
  | Match string string string jsnum string
      \<comment> \<open>\<^verbatim>\<open>id\<close>, \<^verbatim>\<open>text\<close>, \<^verbatim>\<open>qrCode\<close>, \<^verbatim>\<open>score\<close>, \<^verbatim>\<open>createdAt\<close>\<close>

datatype response =
    Json nat payload    \<comment> \<open>\<^verbatim>\<open>c.json(payload, status)\<close>\<close>
  | NotFound            \<comment> \<open>\<^verbatim>\<open>c.notFound()\<close>, status 404\<close>

text \<open>The issues of \<^verbatim>\<open>EncodeSchema\<close> and \<^verbatim>\<open>QuerySchema\<close>, in the order zod reports them.\<close>

definition id_char :: "char \<Rightarrow> bool" where
  "id_char c = (c \<in> set (''abcdefghijklmnopqrstuvwxyz'' @ ''ABCDEFGHIJKLMNOPQRSTUVWXYZ''
                          @ ''0123456789'' @ ''_-''))"

definition text_issues :: "string option \<Rightarrow> string list" where
  "text_issues f = (case f of None \<Rightarrow> [''Required'']
     | Some s \<Rightarrow> (if length s < 1 then [''Text is required''] else [])
               @ (if 10000 < length s then [''Text must be less than 10,000 characters''] else []))"

definition id_issues :: "string option \<Rightarrow> string list" where
  "id_issues f = (case f of None \<Rightarrow> [''Required'']
     | Some s \<Rightarrow> (if length s < 1 then [''ID is required''] else [])
               @ (if 100 < length s then [''ID must be less than 100 characters''] else [])
               @ (if s \<noteq> [] \<and> list_all id_char s then []
                  else [''ID can only contain letters, numbers, hyphens, and underscores'']))"

definition prompt_issues :: "string option \<Rightarrow> string list" where
  "prompt_issues f = (case f of None \<Rightarrow> [''Required'']
     | Some s \<Rightarrow> (if length s < 1 then [''Prompt is required''] else [])
               @ (if 1000 < length s then [''Prompt must be less than 1,000 characters''] else []))"

text \<open>
  \<^verbatim>\<open>validateRequest(EncodeSchema, requestData)\<close>: the data \<^verbatim>\<open>{ text, id }\<close>, or the
  message of the first issue.
\<close>

definition validateRequest_encode :: "encode_data \<Rightarrow> string + (string \<times> string)" where
  "validateRequest_encode d =
     (case (text_issues (text_field d) @ id_issues (id_field d), text_field d, id_field d) of
        ([], Some t, Some i) \<Rightarrow> Inr (t, i)
      | (m # _, _, _) \<Rightarrow> Inl (if m = [] then ''Validation failed'' else m)
      | _ \<Rightarrow> Inl ''Validation failed'')"

definition validateRequest_query :: "query_data \<Rightarrow> string + string" where
  "validateRequest_query d =
     (case (prompt_issues (prompt_field d), prompt_field d) of
        ([], Some p) \<Rightarrow> Inr p
      | (m # _, _) \<Rightarrow> Inl (if m = [] then ''Validation failed'' else m)
      | _ \<Rightarrow> Inl ''Validation failed'')"

section \<open>Registration: \<^verbatim>\<open>POST /encode\<close>\<close>

text \<open>The body of the handler's \<^verbatim>\<open>try\<close> block: what it returns or throws, and the world after.\<close>

definition encode_try :: "env \<Rightarrow> encode_data body \<Rightarrow> world \<Rightarrow> (exn + response) \<times> world" where
  "encode_try env req w =
     (case req of
        Unparsable \<Rightarrow> (Inl BodyError, w)
      | Body requestData \<Rightarrow>
          (case validateRequest_encode requestData of
             Inl msg \<Rightarrow> (Inr (Json 400 (Error_message msg)), w)
           | Inr (text, ident) \<Rightarrow>
               (case generateQRCodeSVG env text w of
                  (Inl e, w1) \<Rightarrow> (Inl e, w1)
                | (Inr svg, w1) \<Rightarrow>
                    (case bucket_put env (ident @ ''.svg'') svg w1 of
                       (Inl e, w2) \<Rightarrow> (Inl e, w2)
                     | (Inr _, w2) \<Rightarrow>
                         (case AI_run env text w2 of
                            (Inl e, w3) \<Rightarrow> (Inl e, w3)
                          | (Inr embeddingResp, w3) \<Rightarrow>
                              (let w4 = emit (Log_encode_response embeddingResp) w3;
                                   embedding = first_or_self embeddingResp;
                                   w5 = emit (Log_encode_length (length embedding)) w4
                               in case db_insert env ident text (json_stringify env embedding) w5 of
                                    (Inl e, w6) \<Rightarrow> (Inl e, w6)
                                  | (Inr _, w6) \<Rightarrow> (Inr (Json 200 Success), w6)))))))"

text \<open>The handler: its \<^verbatim>\<open>catch\<close> logs the error and answers 500.\<close>

definition encode :: "env \<Rightarrow> encode_data body \<Rightarrow> world \<Rightarrow> response \<times> world" where
  "encode env req w =
     (case encode_try env req w of
        (Inr r, w') \<Rightarrow> (r, w')
      | (Inl error, w') \<Rightarrow>
          (Json 500 (Error_message ''Internal server error''), emit (Error_encode error) w'))"

section \<open>Retrieval: \<^verbatim>\<open>POST /query\<close>\<close>

text \<open>
  The loop over \<^verbatim>\<open>results\<close>, from the rows still to visit, \<^verbatim>\<open>bestMatch\<close> and
  \<^verbatim>\<open>bestScore\<close>.
\<close>

fun select_loop ::
  "env \<Rightarrow> jsnum list \<Rightarrow> entry list \<Rightarrow> entry option \<Rightarrow> jsnum \<Rightarrow> world
     \<Rightarrow> (exn + entry option \<times> jsnum) \<times> world" where
  "select_loop env queryVec [] bestMatch bestScore w = (Inr (bestMatch, bestScore), w)"
| "select_loop env queryVec (row # results) bestMatch bestScore w =
     (case json_parse env (embedding row) of
        Inl e \<Rightarrow> (Inl e, w)
      | Inr storedEmbedding \<Rightarrow>
          (let score = cosineSimilarity queryVec storedEmbedding;
               w1 = emit (Log_score (entry_id row) score) w
           in if jgt score bestScore then select_loop env queryVec results (Some row) score w1
              else select_loop env queryVec results bestMatch bestScore w1))"

text \<open>
  The guard \<^verbatim>\<open>!bestMatch || bestScore < 0.6\<close>, under which the handler answers 404; the
  literal \<^verbatim>\<open>0.6\<close> is the double nearest to 6/10.
\<close>

definition rejected :: "entry option \<Rightarrow> jsnum \<Rightarrow> bool" where
  "rejected bestMatch bestScore = (bestMatch = None \<or> jlt bestScore (to_double (6 / 10)))"

definition query_try :: "env \<Rightarrow> query_data body \<Rightarrow> world \<Rightarrow> (exn + response) \<times> world" where
  "query_try env req w =
     (case req of
        Unparsable \<Rightarrow> (Inl BodyError, w)
      | Body requestData \<Rightarrow>
          (case validateRequest_query requestData of
             Inl msg \<Rightarrow> (Inr (Json 400 (Error_message msg)), w)
           | Inr prompt \<Rightarrow>
               (case AI_run env prompt (emit (Log_searching prompt) w) of
                  (Inl e, w2) \<Rightarrow> (Inl e, w2)
                | (Inr queryResp, w2) \<Rightarrow>
                    (let w3 = emit (Log_query_response queryResp) w2;
                         queryVec = first_or_self queryResp;
                         w4 = emit (Log_query_length (length queryVec)) w3
                     in case db_select_all env w4 of
                          (Inl e, w5) \<Rightarrow> (Inl e, w5)
                        | (Inr results, w5) \<Rightarrow>
                            (let w6 = emit (Log_found (length results)) w5
                             in if results = [] then (Inr NotFound, w6)
                                else
                                  (case select_loop env queryVec results None NegInf w6 of
                                     (Inl e, w7) \<Rightarrow> (Inl e, w7)
                                   | (Inr (bestMatch, bestScore), w7) \<Rightarrow>
                                       (let w8 = emit (Log_best (map_option entry_id bestMatch)
                                                         bestScore) w7
                                        in if rejected bestMatch bestScore then (Inr NotFound, w8)
                                           else
                                             (case bestMatch of
                                                None \<Rightarrow> (Inl TypeError, w8)
                                              | Some row \<Rightarrow>
                                                  (case bucket_get env (entry_id row @ ''.svg'') w8 of
                                                     (Inl e, w9) \<Rightarrow> (Inl e, w9)
                                                   | (Inr None, w9) \<Rightarrow>
                                                       (Inr NotFound,
                                                        emit (Log_qr_missing (entry_id row)) w9)
                                                   | (Inr (Some qr), w9) \<Rightarrow>
                                                       (Inr (Json 200
                                                          (Match (entry_id row) (entry_text row) qr
                                                             bestScore (created_at row))), w9))))))))))"

definition query :: "env \<Rightarrow> query_data body \<Rightarrow> world \<Rightarrow> response \<times> world" where
  "query env req w =
     (case query_try env req w of
        (Inr r, w') \<Rightarrow> (r, w')
      | (Inl error, w') \<Rightarrow>
          (Json 500 (Error_message ''Internal server error''), emit (Error_query error) w'))"

section \<open>Auxiliary notions for the proofs\<close>

text \<open>The sum of products over a list of pairs, accumulated as \<^const>\<open>reduce_dot\<close> does.\<close>

fun zip_dot :: "(jsnum \<times> jsnum) list \<Rightarrow> jsnum \<Rightarrow> jsnum" where
  "zip_dot [] acc = acc"
| "zip_dot ((x, y) # ps) acc = zip_dot ps (jadd acc (jmul x y))"

text \<open>A real that is a double: an operation with this result does not round.\<close>

definition is_double :: "real \<Rightarrow> bool" where
  "is_double x = (to_double x = Fin x)"

text \<open>
  A sum accumulated from \<open>s\<close> over the terms \<open>ts\<close> in which no term and no partial sum is
  rounded.
\<close>

fun exact_sum :: "real \<Rightarrow> real list \<Rightarrow> bool" where
  "exact_sum s [] = True"
| "exact_sum s (t # ts) = (is_double t \<and> is_double (s + t) \<and> exact_sum (s + t) ts)"

text \<open>
  A run of the comparator on real vectors in which no operation rounds: the products and
  partial sums of the three folds, the two square roots, their product and the quotient.
\<close>

definition no_rounding :: "real list \<Rightarrow> real list \<Rightarrow> bool" where
  "no_rounding a b =
     (exact_sum 0 (map2 (*) a b)
      \<and> exact_sum 0 (map (\<lambda>x. x * x) a)
      \<and> exact_sum 0 (map (\<lambda>x. x * x) b)
      \<and> is_double (euclidean_norm a)
      \<and> is_double (euclidean_norm b)
      \<and> is_double (euclidean_norm a * euclidean_norm b)
      \<and> is_double (cosine_spec a b))"

text \<open>A number that is not negative: a finite one from 0 on, or the positive infinity.\<close>

definition not_negative :: "jsnum \<Rightarrow> bool" where
  "not_negative v = (case v of Fin r \<Rightarrow> 0 \<le> r | PosInf \<Rightarrow> True | _ \<Rightarrow> False)"

text \<open>The score the loop computes for a row whose \<^verbatim>\<open>embedding\<close> parses.\<close>

definition score_of :: "env \<Rightarrow> jsnum list \<Rightarrow> entry \<Rightarrow> jsnum" where
  "score_of env queryVec row =
     (case json_parse env (embedding row) of
        Inl _ \<Rightarrow> NaN
      | Inr storedEmbedding \<Rightarrow> cosineSimilarity queryVec storedEmbedding)"

text \<open>
  The invariant of the loop after the rows \<open>seen\<close>: \<^verbatim>\<open>bestScore\<close> is never \<^verbatim>\<open>NaN\<close>;
  without a \<^verbatim>\<open>bestMatch\<close> no score seen was greater than \<^verbatim>\<open>-Infinity\<close>; a
  \<^verbatim>\<open>bestMatch\<close> is the first row seen with the score \<^verbatim>\<open>bestScore\<close>, which no score
  seen exceeds.
\<close>

definition best_so_far :: "env \<Rightarrow> jsnum list \<Rightarrow> entry list \<Rightarrow> entry option \<Rightarrow> jsnum \<Rightarrow> bool" where
  "best_so_far env q seen bm bs =
     (bs \<noteq> NaN \<and>
      (case bm of
         None \<Rightarrow> bs = NegInf \<and> (\<forall>r\<in>set seen. \<not> jgt (score_of env q r) NegInf)
       | Some row \<Rightarrow>
           (\<exists>k<length seen. row = seen ! k \<and> bs = score_of env q row \<and> jgt bs NegInf
              \<and> (\<forall>j<length seen. \<not> jgt (score_of env q (seen ! j)) bs)
              \<and> (\<forall>j<k. score_of env q (seen ! j) \<noteq> bs))))"

text \<open>The loop without the console, over rows that parse.\<close>

fun scan :: "env \<Rightarrow> jsnum list \<Rightarrow> entry list \<Rightarrow> entry option \<Rightarrow> jsnum \<Rightarrow> entry option \<times> jsnum" where
  "scan env q [] bm bs = (bm, bs)"
| "scan env q (r # rows) bm bs =
     (if jgt (score_of env q r) bs then scan env q rows (Some r) (score_of env q r)
      else scan env q rows bm bs)"

text \<open>The console lines of the loop, and the events of \<^verbatim>\<open>/query\<close> that precede the loop.\<close>

definition score_lines :: "env \<Rightarrow> jsnum list \<Rightarrow> entry list \<Rightarrow> event list" where
  "score_lines env q rows = map (\<lambda>r. Log_score (entry_id r) (score_of env q r)) rows"

definition query_prelude :: "string \<Rightarrow> jsnum list list \<Rightarrow> nat \<Rightarrow> event list" where
  "query_prelude prompt queryResp n =
     [Log_searching prompt, AiRun prompt, Log_query_response queryResp,
      Log_query_length (length (first_or_self queryResp)), SelectAll, Log_found n]"

subsection \<open>A small deployment for the examples\<close>

text \<open>
  Four texts with embeddings of dimension four: the scores are 1 between equal vectors,
  the double nearest to 2/5 between the first two, the double nearest to 3/5 between the
  first and the fourth,
  and \<^verbatim>\<open>NaN\<close> against the zero vector. The renderer refuses texts longer than twenty
  characters.
\<close>

definition demo_env :: env where
  "demo_env =
     \<lparr>render = (\<lambda>s. if length s \<le> 20 then Inr (''<svg>'' @ s @ ''</svg>'') else Inl RenderError),
      ai_run = (\<lambda>s. if s = ''hello world'' then Inr [ [Fin 1, Fin 0, Fin 0, Fin 0] ]
                     else if s = ''goodbye'' then Inr [ [Fin 2, Fin 4, Fin 2, Fin 1] ]
                     else if s = ''silence'' then Inr [ [Fin 0, Fin 0, Fin 0, Fin 0] ]
                     else if s = ''edge'' then Inr [ [Fin 3, Fin 4, Fin 0, Fin 0] ]
                     else Inl AiError),
      json_stringify = (\<lambda>v. if v = [Fin 1, Fin 0, Fin 0, Fin 0] then ''[1,0,0,0]''
                             else if v = [Fin 2, Fin 4, Fin 2, Fin 1] then ''[2,4,2,1]''
                             else ''[0,0,0,0]''),
      json_parse = (\<lambda>s. if s = ''[1,0,0,0]'' then Inr [Fin 1, Fin 0, Fin 0, Fin 0]
                         else if s = ''[2,4,2,1]'' then Inr [Fin 2, Fin 4, Fin 2, Fin 1]
                         else if s = ''[0,0,0,0]'' then Inr [Fin 0, Fin 0, Fin 0, Fin 0]
                         else Inl SyntaxError),
      now = ''2025-01-01 00:00:00'',
      bucket_fault = False,
      db_fault = False\<rparr>"

definition doc1 :: entry where
  "doc1 = \<lparr>entry_id = ''doc-1'', entry_text = ''hello world'', embedding = ''[1,0,0,0]'',
           created_at = ''2025-01-01 00:00:00''\<rparr>"

definition doc2 :: entry where
  "doc2 = \<lparr>entry_id = ''doc-2'', entry_text = ''goodbye'', embedding = ''[2,4,2,1]'',
           created_at = ''2025-01-01 00:00:00''\<rparr>"

definition doc0 :: entry where
  "doc0 = \<lparr>entry_id = ''doc-0'', entry_text = ''silence'', embedding = ''[0,0,0,0]'',
           created_at = ''2025-01-01 00:00:00''\<rparr>"

definition doc3 :: entry where
  "doc3 = \<lparr>entry_id = ''doc-3'', entry_text = ''hello world'', embedding = ''[1,0,0,0]'',
           created_at = ''2025-01-01 00:00:00''\<rparr>"

definition demo_world :: "(string \<rightharpoonup> string) \<Rightarrow> entry list \<Rightarrow> world" where
  "demo_world b rows = \<lparr>bucket = b, entries = rows, trace = []\<rparr>"

text \<open>The calls to the collaborators among the events, and the events a handler added.\<close>

fun is_call :: "event \<Rightarrow> bool" where
  "is_call (Render _) = True"
| "is_call (Put _ _) = True"
| "is_call (AiRun _) = True"
| "is_call (Insert _ _ _) = True"
| "is_call SelectAll = True"
| "is_call (Get _) = True"
| "is_call _ = False"

definition fresh :: "event list \<Rightarrow> world \<Rightarrow> event list" where
  "fresh before w = drop (length before) (trace w)"

text \<open>Requests to the example deployment.\<close>

definition hello :: query_data where
  "hello = \<lparr>prompt_field = Some ''hello world''\<rparr>"

definition edge :: query_data where
  "edge = \<lparr>prompt_field = Some ''edge''\<rparr>"

definition register_goodbye_as_doc1 :: encode_data where
  "register_goodbye_as_doc1 = \<lparr>text_field = Some ''goodbye'', id_field = Some ''doc-1''\<rparr>"

definition register_unknown :: encode_data where
  "register_unknown = \<lparr>text_field = Some ''unknown'', id_field = Some ''doc-9''\<rparr>"

definition register_goodbye :: encode_data where
  "register_goodbye = \<lparr>text_field = Some ''goodbye'', id_field = Some ''doc-2''\<rparr>"

section \<open>Properties of the arithmetic\<close>

subsection \<open>Rounding\<close>

lemma to_double_0 [simp]: "to_double 0 = Fin 0"
  by (simp add: to_double_def)

lemma to_double_not_NaN [simp]: "to_double x \<noteq> NaN"
  by (simp add: to_double_def Let_def signed_inf_def)

lemma round_even_ge_floor: "\<lfloor>q\<rfloor> \<le> round_even q"
  by (simp add: round_even_def Let_def)

lemma round_even_of_int [simp]: "round_even (of_int m) = m"
  by (simp add: round_even_def)

lemma round_even_nonneg: "0 \<le> q \<Longrightarrow> 0 \<le> round_even q"
  using round_even_ge_floor[of q] by (simp add: order_trans[of 0 "\<lfloor>q\<rfloor>"])

text \<open>Rounding keeps the sign.\<close>

lemma to_double_nonneg:
  assumes "0 \<le> x"
  shows "not_negative (to_double x)"
proof (cases "x = 0")
  case True
  then show ?thesis by (simp add: not_negative_def)
next
  case False
  let ?u = "(2::real) powi (expo x - 52)"
  have u: "0 < ?u" by simp
  then have "0 \<le> x / ?u" using assms by simp
  then have "0 \<le> round_even (x / ?u)" by (rule round_even_nonneg)
  then have "0 \<le> of_int (round_even (x / ?u)) * ?u" using u by simp
  then show ?thesis using False
    by (auto simp: to_double_def Let_def signed_inf_def not_negative_def)
qed

lemma powr_succ: "(2::real) powr (real_of_int e + 1) = 2 powi (e + 1)"
  using powr_real_of_int'[of 2 "e + 1"] by simp

lemma expo_eq:
  assumes "2 powi e \<le> \<bar>x\<bar>" "\<bar>x\<bar> < 2 powi (e + 1)" "- 1022 \<le> e"
  shows "expo x = e"
proof -
  have pos: "0 < \<bar>x\<bar>" using assms(1) zero_less_power_int[of "2::real" e] by linarith
  have "\<lfloor>log 2 \<bar>x\<bar>\<rfloor> = e"
    using assms(1,2) pos by (simp add: floor_log_eq_powr_iff powr_real_of_int' powr_succ)
  then show ?thesis using assms(3) by (simp add: expo_def)
qed

text \<open>A real with a significand of 53 bits and an exponent in range is a double.\<close>

lemma to_double_exact:
  assumes x: "x = of_int m * 2 powi (e - 52)"
      and m: "2 ^ 52 \<le> \<bar>m\<bar>" "\<bar>m\<bar> < 2 ^ 53"
      and e: "- 1022 \<le> e" "e \<le> 1023"
  shows "to_double x = Fin x"
proof -
  let ?u = "(2::real) powi (e - 52)"
  have u: "0 < ?u" by simp
  have absx: "\<bar>x\<bar> = of_int \<bar>m\<bar> * ?u" using u by (simp add: x abs_mult)
  have split1: "(2::real) powi e = 2 ^ 52 * ?u"
    using power_int_add[of "2::real" 52 "e - 52"] by simp
  have split2: "(2::real) powi (e + 1) = 2 ^ 53 * ?u"
    using power_int_add[of "2::real" 53 "e - 52"] by (simp add: add.commute)
  have m1: "(2::real) ^ 52 \<le> of_int \<bar>m\<bar>"
    using m(1) by (metis of_int_le_iff of_int_numeral of_int_power)
  have m2: "of_int \<bar>m\<bar> < (2::real) ^ 53"
    using m(2) by (metis of_int_less_iff of_int_numeral of_int_power)
  have lo: "2 powi e \<le> \<bar>x\<bar>" unfolding absx split1 using m1 u by simp
  have hi: "\<bar>x\<bar> < 2 powi (e + 1)" unfolding absx split2 using m2 u by simp
  have ex: "expo x = e" using lo hi e(1) by (rule expo_eq)
  have "0 < (2::real) powi e" by simp
  with lo have "0 < \<bar>x\<bar>" by linarith
  then have nz: "x \<noteq> 0" by auto
  have q: "x / ?u = of_int m" using u by (simp add: x)
  have "(2::real) powi (e + 1) \<le> 2 powi 1024"
    using e(2) by (intro power_int_increasing) auto
  then have small: "\<bar>x\<bar> < 2 ^ 1024" using hi by simp
  show ?thesis using nz small
    by (simp add: to_double_def Let_def ex q x[symmetric])
qed

text \<open>The double nearest to a real whose exponent is known.\<close>

lemma to_double_round:
  assumes "2 powi e \<le> \<bar>x\<bar>" "\<bar>x\<bar> < 2 powi (e + 1)" "- 1022 \<le> e"
      and "round_even (x / 2 powi (e - 52)) = m"
      and "\<bar>of_int m * 2 powi (e - 52)\<bar> < (2::real) ^ 1024"
  shows "to_double x = Fin (of_int m * 2 powi (e - 52))"
proof -
  have ex: "expo x = e" using assms(1-3) by (rule expo_eq)
  have "0 < (2::real) powi e" by simp
  with assms(1) have "0 < \<bar>x\<bar>" by linarith
  then have nz: "x \<noteq> 0" by auto
  show ?thesis using nz assms(4,5) by (simp add: to_double_def Let_def ex)
qed

text \<open>From \<open>2\<^sup>1\<^sup>0\<^sup>2\<^sup>4\<close> on, a result overflows.\<close>

lemma to_double_overflow:
  assumes "2 ^ 1024 \<le> x"
  shows "to_double x = PosInf"
proof -
  have xpos: "0 < x" using assms by (smt (verit) zero_less_power)
  define e where "e = \<lfloor>log 2 \<bar>x\<bar>\<rfloor>"
  have be: "2 powi e \<le> x" "x < 2 powi (e + 1)"
    using floor_log_eq_powr_iff[of "\<bar>x\<bar>" 2 e] xpos
    by (simp_all add: e_def powr_real_of_int' powr_succ)
  have "(2::real) powi 1024 < 2 powi (e + 1)" using assms be(2) by simp
  then have e1024: "1024 \<le> e"
    by (smt (verit) power_int_increasing)
  then have ex: "expo x = e" using xpos by (simp add: expo_def e_def)
  let ?u = "(2::real) powi (e - 52)"
  have u: "0 < ?u" by simp
  have split1: "(2::real) powi e = 2 ^ 52 * ?u"
    using power_int_add[of "2::real" 52 "e - 52"] by simp
  have "2 ^ 52 \<le> x / ?u" using be(1) u unfolding split1 by (simp add: pos_le_divide_eq)
  then have "(2::int) ^ 52 \<le> \<lfloor>x / ?u\<rfloor>" by (simp add: le_floor_iff)
  then have "(2::int) ^ 52 \<le> round_even (x / ?u)"
    using round_even_ge_floor[of "x / ?u"] by linarith
  then have "(2::real) ^ 52 \<le> of_int (round_even (x / ?u))"
    by (metis of_int_le_iff of_int_numeral of_int_power)
  then have "2 ^ 52 * ?u \<le> of_int (round_even (x / ?u)) * ?u" using u by simp
  then have r: "2 powi e \<le> of_int (round_even (x / ?u)) * ?u" unfolding split1 .
  have "(2::real) powi 1024 \<le> 2 powi e" using e1024 by (intro power_int_increasing) auto
  with r have big: "2 ^ 1024 \<le> of_int (round_even (x / ?u)) * ?u" by simp
  then have "\<not> of_int (round_even (x / ?u)) * ?u < 0" by (smt (verit) zero_less_power)
  then show ?thesis using xpos big
    by (simp add: to_double_def Let_def ex signed_inf_def abs_if)
qed

subsection \<open>Some doubles\<close>

lemma small_doubles [simp]:
  "to_double 1 = Fin 1" "to_double 2 = Fin 2" "to_double 3 = Fin 3" "to_double 4 = Fin 4"
  "to_double 5 = Fin 5" "to_double 9 = Fin 9"
  "to_double 16 = Fin 16" "to_double 20 = Fin 20" "to_double 24 = Fin 24"
  "to_double 25 = Fin 25" "to_double (1 / 2) = Fin (1 / 2)"
proof -
  show "to_double 1 = Fin 1"
    by (rule to_double_exact[where m = "2 ^ 52" and e = 0]) simp_all
  show "to_double 2 = Fin 2"
    by (rule to_double_exact[where m = "2 ^ 52" and e = 1]) simp_all
  show "to_double 3 = Fin 3"
    by (rule to_double_exact[where m = "3 * 2 ^ 51" and e = 1]) simp_all
  show "to_double 4 = Fin 4"
    by (rule to_double_exact[where m = "2 ^ 52" and e = 2]) simp_all
  show "to_double 5 = Fin 5"
    by (rule to_double_exact[where m = "5 * 2 ^ 50" and e = 2]) simp_all
  show "to_double 9 = Fin 9"
    by (rule to_double_exact[where m = "9 * 2 ^ 49" and e = 3]) simp_all
  show "to_double 16 = Fin 16"
    by (rule to_double_exact[where m = "2 ^ 52" and e = 4]) simp_all
  show "to_double 20 = Fin 20"
    by (rule to_double_exact[where m = "5 * 2 ^ 50" and e = 4]) simp_all
  show "to_double 24 = Fin 24"
    by (rule to_double_exact[where m = "3 * 2 ^ 51" and e = 4]) simp_all
  show "to_double 25 = Fin 25"
    by (rule to_double_exact[where m = "25 * 2 ^ 48" and e = 4]) simp_all
  show "to_double (1 / 2) = Fin (1 / 2)"
    by (rule to_double_exact[where m = "2 ^ 52" and e = "- 1"]) simp_all
qed

text \<open>The literal \<^verbatim>\<open>0.6\<close>, which is \<^verbatim>\<open>3 / 5\<close> too.\<close>

lemma three_fifths [simp]: "to_double (3 / 5) = Fin (5404319552844595 / 9007199254740992)"
  using to_double_round[of "- 1" "3 / 5" 5404319552844595]
  by (simp add: round_even_def Let_def)

lemma two_fifths [simp]: "to_double (2 / 5) = Fin (3602879701896397 / 9007199254740992)"
  using to_double_round[of "- 2" "2 / 5" 7205759403792794]
  by (simp add: round_even_def Let_def)

lemma sqrt_9: "sqrt 9 = 3"
  using real_sqrt_abs[of 3] by simp

lemma sqrt_25: "sqrt 25 = 5"
  using real_sqrt_abs[of 5] by simp

subsection \<open>The operators\<close>

lemma jmul_commute: "jmul x y = jmul y x"
  by (cases x; cases y) (auto simp: signed_inf_def mult.commute)

lemma jadd_NaN_right [simp]: "jadd x NaN = NaN"
  by (cases x) auto

lemma jmul_NaN_right [simp]: "jmul x NaN = NaN"
  by (cases x) auto

lemma jdiv_NaN_right [simp]: "jdiv x NaN = NaN"
  by (cases x) auto

lemma jmul_square_not_negative: "not_negative (jmul (Fin x) (Fin x))"
  by (simp add: to_double_nonneg)

lemma jadd_not_negative: "not_negative u \<Longrightarrow> not_negative v \<Longrightarrow> not_negative (jadd u v)"
  by (cases u; cases v) (auto simp: not_negative_def intro: to_double_nonneg[unfolded not_negative_def])

lemma jsqrt_not_negative: "not_negative v \<Longrightarrow> not_negative (jsqrt v)"
  by (cases v) (auto simp: not_negative_def intro: to_double_nonneg[unfolded not_negative_def])

text \<open>Zero divided by the product of zero and a magnitude.\<close>

lemma zero_by_zero_magnitude:
  assumes "not_negative v"
  shows "jdiv (Fin 0) (jmul (Fin 0) v) = NaN" and "jdiv (Fin 0) (jmul v (Fin 0)) = NaN"
  using assms by (cases v; simp add: not_negative_def)+

section \<open>Properties of the comparator\<close>

lemma reduce_dot_NaN [simp]: "reduce_dot as b i NaN = NaN"
  by (induction as arbitrary: i) auto

text \<open>While \<^verbatim>\<open>b\<close> is long enough, the index walks \<^verbatim>\<open>b\<close> in step with \<^verbatim>\<open>a\<close>.\<close>

lemma reduce_dot_zip:
  "length as \<le> length bs \<Longrightarrow>
     reduce_dot as (pre @ bs) (length pre) acc = zip_dot (zip as bs) acc"
proof (induction as arbitrary: pre bs acc)
  case Nil
  then show ?case by simp
next
  case (Cons x xs)
  then obtain y ys where bs: "bs = y # ys" by (cases bs) auto
  have "reduce_dot xs ((pre @ [y]) @ ys) (length (pre @ [y])) (jadd acc (jmul x y))
          = zip_dot (zip xs ys) (jadd acc (jmul x y))"
    using Cons.prems bs by (intro Cons.IH) simp
  then show ?case using bs by (simp add: at_num_def)
qed

text \<open>Once \<^verbatim>\<open>a\<close> outruns \<^verbatim>\<open>b\<close>, a product with \<^verbatim>\<open>undefined\<close> poisons the sum.\<close>

lemma reduce_dot_long:
  "length bs < length as \<Longrightarrow> reduce_dot as (pre @ bs) (length pre) acc = NaN"
proof (induction as arbitrary: pre bs acc)
  case Nil
  then show ?case by simp
next
  case (Cons x xs)
  show ?case
  proof (cases bs)
    case Nil
    then show ?thesis by (simp add: at_num_def)
  next
    case (Cons y ys)
    have "reduce_dot xs ((pre @ [y]) @ ys) (length (pre @ [y])) (jadd acc (jmul x y)) = NaN"
      using Cons.prems Cons by (intro Cons.IH) simp
    then show ?thesis using Cons by (simp add: at_num_def)
  qed
qed

lemma zip_dot_swap: "zip_dot (zip as bs) acc = zip_dot (zip bs as) acc"
proof (induction as arbitrary: bs acc)
  case Nil
  then show ?case by simp
next
  case (Cons x xs)
  then show ?case by (cases bs) (auto simp: jmul_commute)
qed

lemma reduce_dot_sym:
  "length a = length b \<Longrightarrow> reduce_dot a b 0 acc = reduce_dot b a 0 acc"
  using reduce_dot_zip[of a b "[]" acc] reduce_dot_zip[of b a "[]" acc] zip_dot_swap[of a b acc]
  by simp

lemma zip_take_left: "zip xs (take (length xs) ys) = zip xs ys"
proof (induction xs arbitrary: ys)
  case Nil
  then show ?case by simp
next
  case (Cons x xs)
  then show ?case by (cases ys) auto
qed

subsection \<open>Folds that do not round\<close>

lemma reduce_sq_exact:
  "exact_sum s (map (\<lambda>x. x * x) xs) \<Longrightarrow>
     reduce_sq (map Fin xs) (Fin s) = Fin (s + (\<Sum>x\<leftarrow>xs. x\<^sup>2))"
  by (induction xs arbitrary: s) (auto simp: power2_eq_square algebra_simps is_double_def)

lemma zip_dot_exact:
  "length xs = length ys \<Longrightarrow> exact_sum s (map2 (*) xs ys) \<Longrightarrow>
     zip_dot (zip (map Fin xs) (map Fin ys)) (Fin s) = Fin (s + (\<Sum>i<length xs. xs ! i * ys ! i))"
proof (induction xs arbitrary: ys s)
  case Nil
  then show ?case by simp
next
  case (Cons x xs)
  then obtain y ys' where ys: "ys = y # ys'" by (cases ys) auto
  with Cons show ?case
    by (simp add: sum.lessThan_Suc_shift algebra_simps is_double_def del: sum.lessThan_Suc)
qed

lemma reduce_dot_exact:
  assumes "length a = length b" and "exact_sum 0 (map2 (*) a b)"
  shows "reduce_dot (map Fin a) (map Fin b) 0 (Fin 0) = Fin (dot_product a b)"
  using reduce_dot_zip[of "map Fin a" "map Fin b" "[]" "Fin 0"] zip_dot_exact[OF assms] assms(1)
  by (simp add: dot_product_def)

lemma sum_sq_not_neg: "\<not> (\<Sum>x\<leftarrow>xs. x\<^sup>2) < (0::real)"
  by (auto intro!: sum_list_nonneg simp: not_less)

subsection \<open>Vectors of zero magnitude\<close>

lemma sum_sq_zero: "(\<Sum>x\<leftarrow>xs. x\<^sup>2) = (0::real) \<Longrightarrow> \<forall>x\<in>set xs. x = 0"
proof (induction xs)
  case Nil
  then show ?case by simp
next
  case (Cons x xs)
  have "0 \<le> (\<Sum>y\<leftarrow>xs. y\<^sup>2)" by (auto intro!: sum_list_nonneg)
  with Cons.prems have "x\<^sup>2 = 0 \<and> (\<Sum>y\<leftarrow>xs. y\<^sup>2) = 0"
    using add_nonneg_eq_0_iff[of "x\<^sup>2" "\<Sum>y\<leftarrow>xs. y\<^sup>2"] by simp
  then show ?case using Cons.IH by simp
qed


lemma reduce_sq_not_negative:
  "not_negative acc \<Longrightarrow> not_negative (reduce_sq (map Fin xs) acc)"
proof (induction xs arbitrary: acc)
  case Nil
  then show ?case by simp
next
  case (Cons x xs)
  have "not_negative (jadd acc (jmul (Fin x) (Fin x)))"
    using Cons.prems jmul_square_not_negative by (rule jadd_not_negative)
  then show ?case using Cons.IH by simp
qed

lemma reduce_sq_zeros: "\<forall>x\<in>set xs. x = 0 \<Longrightarrow> reduce_sq (map Fin xs) (Fin 0) = Fin 0"
  by (induction xs) auto

lemma zip_dot_zeros_left:
  "\<forall>x\<in>set xs. x = 0 \<Longrightarrow> zip_dot (zip (map Fin xs) (map Fin ys)) (Fin 0) = Fin 0"
proof (induction xs arbitrary: ys)
  case Nil
  then show ?case by simp
next
  case (Cons x xs)
  then show ?case by (cases ys) auto
qed

lemma zip_dot_zeros_right:
  "\<forall>y\<in>set ys. y = 0 \<Longrightarrow> zip_dot (zip (map Fin xs) (map Fin ys)) (Fin 0) = Fin 0"
proof (induction xs arbitrary: ys)
  case Nil
  then show ?case by simp
next
  case (Cons x xs)
  then show ?case by (cases ys) auto
qed

lemma magnitude_not_negative: "not_negative (jsqrt (reduce_sq (map Fin xs) (Fin 0)))"
  by (intro jsqrt_not_negative reduce_sq_not_negative) (simp add: not_negative_def)

lemma cosineSimilarity_zero_magnitude:
  assumes "length a = length b" "euclidean_norm a = 0 \<or> euclidean_norm b = 0"
  shows "cosineSimilarity (map Fin a) (map Fin b) = NaN"
proof -
  have m: "(\<Sum>x\<leftarrow>a. x\<^sup>2) = 0 \<or> (\<Sum>x\<leftarrow>b. x\<^sup>2) = 0"
    using assms(2) by (simp add: euclidean_norm_def)
  have dot: "reduce_dot (map Fin a) (map Fin b) 0 (Fin 0)
               = zip_dot (zip (map Fin a) (map Fin b)) (Fin 0)"
    using reduce_dot_zip[of "map Fin a" "map Fin b" "[]" "Fin 0"] assms(1) by simp
  show ?thesis
  proof (cases "(\<Sum>x\<leftarrow>a. x\<^sup>2) = 0")
    case True
    then have z: "\<forall>x\<in>set a. x = 0" by (rule sum_sq_zero)
    show ?thesis
      by (simp add: cosineSimilarity_def dot zip_dot_zeros_left[OF z] reduce_sq_zeros[OF z]
            zero_by_zero_magnitude(1)[OF magnitude_not_negative])
  next
    case False
    with m have "(\<Sum>x\<leftarrow>b. x\<^sup>2) = 0" by simp
    then have z: "\<forall>x\<in>set b. x = 0" by (rule sum_sq_zero)
    show ?thesis
      by (simp add: cosineSimilarity_def dot zip_dot_zeros_right[OF z] reduce_sq_zeros[OF z]
            zero_by_zero_magnitude(2)[OF magnitude_not_negative])
  qed
qed

subsection \<open>Runs that round or overflow\<close>

lemma sqrt_2_double: "to_double (sqrt 2) = Fin (6369051672525773 / 4503599627370496)"
proof -
  let ?q = "sqrt 2 / 2 powi (0 - 52)"
  have q: "?q = sqrt 2 * 4503599627370496" by simp
  have "((6369051672525772 + 1 / 2) / 4503599627370496)\<^sup>2 < (2::real)"
    by (simp add: power2_eq_square)
  then have "(6369051672525772 + 1 / 2) / 4503599627370496 < sqrt 2"
    by (rule real_less_rsqrt)
  then have lo: "6369051672525772 + 1 / 2 < ?q" by (simp add: field_simps)
  have "(2::real) < (6369051672525773 / 4503599627370496)\<^sup>2"
    by (simp add: power2_eq_square)
  then have "sqrt 2 < 6369051672525773 / 4503599627370496"
    by (intro real_less_lsqrt) simp_all
  then have hi: "?q < 6369051672525773" by (simp add: field_simps)
  have fl: "\<lfloor>?q\<rfloor> = 6369051672525772"
    using lo hi by (intro floor_unique) simp_all
  have r: "round_even ?q = 6369051672525773"
    using lo by (simp only: round_even_def Let_def fl) simp
  have one: "(1::real) \<le> sqrt 2" by simp
  have two: "sqrt 2 < (2::real)" using real_less_lsqrt[of 2 2] by simp
  show ?thesis
    using to_double_round[of 0 "sqrt 2" 6369051672525773, OF _ _ _ r] one two by simp
qed

lemma square_of_sqrt_2_double:
  "jmul (Fin (6369051672525773 / 4503599627370496)) (Fin (6369051672525773 / 4503599627370496))
     = Fin (4503599627370497 / 2251799813685248)"
  using to_double_round[of 1
          "(6369051672525773 / 4503599627370496) * (6369051672525773 / 4503599627370496)"
          4503599627370497]
  by (simp add: round_even_def Let_def)

lemma two_by_that: "jdiv (Fin 2) (Fin (4503599627370497 / 2251799813685248))
     = Fin (4503599627370495 / 4503599627370496)"
  using to_double_round[of "- 1" "2 / (4503599627370497 / 2251799813685248)" 9007199254740990]
  by (simp add: round_even_def Let_def)

lemma cosineSimilarity_ones: "cosineSimilarity [Fin 1, Fin 1] [Fin 1, Fin 1] = Fin (4503599627370495 / 4503599627370496)"
proof -
  have dot: "reduce_dot [Fin 1, Fin 1] [Fin 1, Fin 1] 0 (Fin 0) = Fin 2"
    by (simp add: at_num_def)
  have sq: "reduce_sq [Fin 1, Fin 1] (Fin 0) = Fin 2" by simp
  have mag: "jsqrt (Fin 2) = Fin (6369051672525773 / 4503599627370496)"
    by (simp add: sqrt_2_double)
  show ?thesis
    by (simp only: cosineSimilarity_def dot sq mag Let_def square_of_sqrt_2_double two_by_that)
qed

lemma cosineSimilarity_overflow:
  assumes "2 ^ 512 \<le> x"
  shows "cosineSimilarity [Fin x] [Fin x] = NaN"
proof -
  have "(2::real) ^ 512 * 2 ^ 512 \<le> x * x"
    using assms by (intro mult_mono) simp_all
  then have "(2::real) ^ 1024 \<le> x * x" by (simp flip: power_add)
  then have big: "to_double (x * x) = PosInf" by (rule to_double_overflow)
  show ?thesis
    by (simp add: cosineSimilarity_def at_num_def big)
qed

lemma cosine_spec_self:
  assumes "0 < x"
  shows "cosine_spec [x] [x] = 1" and "euclidean_norm [x] \<noteq> 0"
  using assms by (simp_all add: cosine_spec_def euclidean_norm_def dot_product_def)

lemma cosine_spec_ones: "cosine_spec [1, 1] [1, 1] = 1" "euclidean_norm [1, 1] \<noteq> 0"
  by (simp_all add: cosine_spec_def euclidean_norm_def dot_product_def lessThan_Suc numeral_2_eq_2)

section \<open>The claims about the comparator\<close>

text \<open>
  C1, as the code has it. For equal-length real vectors \<open>a\<close> and \<open>b\<close>, each of nonzero
  magnitude, \<^verbatim>\<open>cosineSimilarity(a, b)\<close> is the dot product of \<open>a\<close> and \<open>b\<close> divided by the
  product of their Euclidean norms whenever no operation of the computation rounds: every
  product, partial sum, square root and the quotient is a double.
\<close>

theorem cosineSimilarity_is_cosine_when_exact:
  assumes "length a = length b" and "euclidean_norm a \<noteq> 0" and "euclidean_norm b \<noteq> 0"
      and "no_rounding a b"
  shows "cosineSimilarity (map Fin a) (map Fin b) = Fin (cosine_spec a b)"
proof -
  from assms(4) have ex: "exact_sum 0 (map2 (*) a b)" "exact_sum 0 (map (\<lambda>x. x * x) a)"
    "exact_sum 0 (map (\<lambda>x. x * x) b)"
    and na: "to_double (sqrt (\<Sum>x\<leftarrow>a. x\<^sup>2)) = Fin (sqrt (\<Sum>x\<leftarrow>a. x\<^sup>2))"
    and nb: "to_double (sqrt (\<Sum>x\<leftarrow>b. x\<^sup>2)) = Fin (sqrt (\<Sum>x\<leftarrow>b. x\<^sup>2))"
    and nab: "to_double (sqrt (\<Sum>x\<leftarrow>a. x\<^sup>2) * sqrt (\<Sum>x\<leftarrow>b. x\<^sup>2))
                = Fin (sqrt (\<Sum>x\<leftarrow>a. x\<^sup>2) * sqrt (\<Sum>x\<leftarrow>b. x\<^sup>2))"
    and c: "to_double (dot_product a b / (sqrt (\<Sum>x\<leftarrow>a. x\<^sup>2) * sqrt (\<Sum>x\<leftarrow>b. x\<^sup>2)))
                = Fin (dot_product a b / (sqrt (\<Sum>x\<leftarrow>a. x\<^sup>2) * sqrt (\<Sum>x\<leftarrow>b. x\<^sup>2)))"
    by (simp_all add: no_rounding_def is_double_def euclidean_norm_def cosine_spec_def)
  show ?thesis using assms(2,3)
    by (simp add: cosineSimilarity_def reduce_dot_exact[OF assms(1) ex(1)] reduce_sq_exact[OF ex(2)]
          reduce_sq_exact[OF ex(3)] sum_sq_not_neg na nb nab c cosine_spec_def euclidean_norm_def)
qed

theorem cosineSimilarity_is_cosine_when_exact_witness:
  "length [1, 1, 1, 1 :: real] = length [1, 0, 0, 0 :: real]
     \<and> euclidean_norm [1, 1, 1, 1] \<noteq> 0 \<and> euclidean_norm [1, 0, 0, 0] \<noteq> 0
     \<and> no_rounding [1, 1, 1, 1] [1, 0, 0, 0]
     \<and> cosineSimilarity [Fin 1, Fin 1, Fin 1, Fin 1] [Fin 1, Fin 0, Fin 0, Fin 0] = Fin (1 / 2)"
  using cosineSimilarity_is_cosine_when_exact[of "[1, 1, 1, 1]" "[1, 0, 0, 0]"]
  by (simp add: euclidean_norm_def cosine_spec_def dot_product_def lessThan_Suc numeral_2_eq_2
        numeral_3_eq_3 no_rounding_def is_double_def)

text \<open>
  C1 as stated fails: on \<open>[1, 1]\<close> and \<open>[1, 1]\<close> the comparator returns
  \<open>1 - 2\<^sup>-\<^sup>5\<^sup>2\<close>, since the square root of 2 is rounded, and on \<open>[2\<^sup>6\<^sup>0\<^sup>0]\<close> and
  \<open>[2\<^sup>6\<^sup>0\<^sup>0]\<close> it returns \<^verbatim>\<open>NaN\<close>, since the squares overflow; the cosine is 1 in
  both cases.
\<close>

theorem cosineSimilarity_rounds_and_overflows:
  "length [1, 1 :: real] = length [1, 1 :: real]
     \<and> euclidean_norm [1, 1] \<noteq> 0
     \<and> cosine_spec [1, 1] [1, 1] = 1
     \<and> cosineSimilarity (map Fin [1, 1]) (map Fin [1, 1])
          = Fin (4503599627370495 / 4503599627370496)
     \<and> length [2 ^ 600 :: real] = length [2 ^ 600 :: real]
     \<and> euclidean_norm [2 ^ 600] \<noteq> 0
     \<and> cosine_spec [2 ^ 600] [2 ^ 600] = 1
     \<and> cosineSimilarity (map Fin [2 ^ 600]) (map Fin [2 ^ 600]) = NaN"
proof -
  have big: "(2::real) ^ 512 \<le> 2 ^ 600" by (rule power_increasing) simp_all
  have pos: "(0::real) < 2 ^ 600" by (rule zero_less_power) simp
  have "cosineSimilarity (map Fin [1, 1]) (map Fin [1, 1])
          = Fin (4503599627370495 / 4503599627370496)"
    using cosineSimilarity_ones by (simp only: list.map)
  moreover have "cosineSimilarity (map Fin [2 ^ 600]) (map Fin [2 ^ 600]) = NaN"
    using cosineSimilarity_overflow[OF big] by (simp only: list.map)
  ultimately show ?thesis
    using cosine_spec_ones cosine_spec_self[OF pos] by (simp only: simp_thms list.size)
qed

text \<open>
  C9. For all equal-length vectors \<open>a\<close> and \<open>b\<close>, \<^verbatim>\<open>cosineSimilarity(a, b)\<close> and
  \<^verbatim>\<open>cosineSimilarity(b, a)\<close> are the same value (the same number, or both \<^verbatim>\<open>NaN\<close>).
\<close>

theorem cosineSimilarity_symmetric:
  "length a = length b \<Longrightarrow> cosineSimilarity a b = cosineSimilarity b a"
  by (simp add: cosineSimilarity_def reduce_dot_sym jmul_commute)

theorem cosineSimilarity_symmetric_witness:
  "length [Fin 3, Fin 4] = length [Fin 1, Fin 0]
     \<and> cosineSimilarity [Fin 3, Fin 4] [Fin 1, Fin 0]
         = cosineSimilarity [Fin 1, Fin 0] [Fin 3, Fin 4]"
  using cosineSimilarity_symmetric[of "[Fin 3, Fin 4]" "[Fin 1, Fin 0]"] by simp

text \<open>
  C4, as the code has it. The comparator has no error result. With vectors of unequal
  length it returns \<^verbatim>\<open>NaN\<close> when \<open>a\<close> is the longer one; when \<open>a\<close> is the shorter one it
  returns the quotient of the dot product of \<open>a\<close> with the first \<open>length a\<close> elements of
  \<open>b\<close> by the product of the magnitudes of \<open>a\<close> and of the whole of \<open>b\<close>.
\<close>

theorem cosineSimilarity_unequal_lengths:
  "length a \<noteq> length b \<Longrightarrow>
     cosineSimilarity a b =
       (if length b < length a then NaN
        else jdiv (reduce_dot a (take (length a) b) 0 (Fin 0))
               (jmul (jsqrt (reduce_sq a (Fin 0))) (jsqrt (reduce_sq b (Fin 0)))))"
proof (cases "length b < length a")
  case True
  then show ?thesis using reduce_dot_long[of b a "[]" "Fin 0"]
    by (simp add: cosineSimilarity_def)
next
  case False
  then have le: "length a \<le> length b" by simp
  have "reduce_dot a b 0 (Fin 0) = reduce_dot a (take (length a) b) 0 (Fin 0)"
    using reduce_dot_zip[of a b "[]" "Fin 0"]
      reduce_dot_zip[of a "take (length a) b" "[]" "Fin 0"] le
    by (simp add: zip_take_left)
  then show ?thesis using False by (simp add: cosineSimilarity_def)
qed

theorem cosineSimilarity_unequal_lengths_witness:
  "length [Fin 1, Fin 0] \<noteq> length [Fin 1] \<and> cosineSimilarity [Fin 1, Fin 0] [Fin 1] = NaN
     \<and> length [Fin 3] \<noteq> length [Fin 1, Fin 0]
     \<and> cosineSimilarity [Fin 3] [Fin 1, Fin 0] = Fin 1"
  using cosineSimilarity_unequal_lengths[of "[Fin 1, Fin 0]" "[Fin 1]"]
    cosineSimilarity_unequal_lengths[of "[Fin 3]" "[Fin 1, Fin 0]"]
  by (simp add: at_num_def sqrt_9)

text \<open>
  C4 as stated fails: on a vector of length 1 and a vector of length 2 the comparator
  returns the score 1.
\<close>

theorem cosineSimilarity_mismatch_returns_score:
  "length [Fin 1] \<noteq> length [Fin 1, Fin 0] \<and> cosineSimilarity [Fin 1] [Fin 1, Fin 0] = Fin 1"
  by (simp add: cosineSimilarity_def at_num_def)

section \<open>Properties of the selection loop\<close>

lemma jgt_not_NaN: "jgt a b \<Longrightarrow> a \<noteq> NaN"
  by (cases a; cases b) auto

lemma jgt_irrefl [simp]: "\<not> jgt a a"
  by (cases a) auto

lemma jgt_NegInf: "jgt a b \<Longrightarrow> b \<noteq> NaN \<Longrightarrow> jgt a NegInf"
  by (cases a; cases b) auto

lemma jgt_upper: "jgt a b \<Longrightarrow> \<not> jgt c b \<Longrightarrow> b \<noteq> NaN \<Longrightarrow> \<not> jgt c a"
  by (cases a; cases b; cases c) auto

lemma select_loop_returns:
  assumes "\<forall>r\<in>set rows. \<exists>v. json_parse env (embedding r) = Inr v"
  shows "\<exists>bm' bs'. select_loop env q rows bm bs w =
           (Inr (bm', bs'),
            w\<lparr>trace := trace w @ map (\<lambda>r. Log_score (entry_id r) (score_of env q r)) rows\<rparr>)"
  using assms
proof (induction rows arbitrary: bm bs w)
  case Nil
  then show ?case by simp
next
  case (Cons r rows)
  then obtain v where v: "json_parse env (embedding r) = Inr v" by auto
  let ?s = "cosineSimilarity q v"
  let ?w1 = "emit (Log_score (entry_id r) ?s) w"
  have rest: "\<forall>r\<in>set rows. \<exists>v. json_parse env (embedding r) = Inr v" using Cons.prems by simp
  show ?case
  proof (cases "jgt ?s bs")
    case True
    from Cons.IH[OF rest, of "Some r" ?s ?w1] True v show ?thesis
      by (simp add: emit_def score_of_def Let_def)
  next
    case False
    from Cons.IH[OF rest, of bm bs ?w1] False v show ?thesis
      by (simp add: emit_def score_of_def Let_def)
  qed
qed

lemma best_so_far_step:
  assumes inv: "best_so_far env q seen bm bs"
  shows "best_so_far env q (seen @ [r])
           (if jgt (score_of env q r) bs then Some r else bm)
           (if jgt (score_of env q r) bs then score_of env q r else bs)"
proof -
  let ?s = "score_of env q r"
  from inv have nn: "bs \<noteq> NaN" by (simp add: best_so_far_def)
  have below: "\<forall>j<length seen. \<not> jgt (score_of env q (seen ! j)) bs"
    using inv by (cases bm) (auto simp: best_so_far_def)
  show ?thesis
  proof (cases "jgt ?s bs")
    case True
    have "\<forall>j<length (seen @ [r]). \<not> jgt (score_of env q ((seen @ [r]) ! j)) ?s"
      using below True nn by (auto simp: nth_append less_Suc_eq dest: jgt_upper)
    moreover have "\<forall>j<length seen. score_of env q ((seen @ [r]) ! j) \<noteq> ?s"
      using below True by (auto simp: nth_append)
    moreover have "jgt ?s NegInf" using True nn by (rule jgt_NegInf)
    moreover have "?s \<noteq> NaN" using True by (rule jgt_not_NaN)
    ultimately show ?thesis using True
      by (auto simp: best_so_far_def intro!: exI[of _ "length seen"])
  next
    case False
    show ?thesis
    proof (cases bm)
      case None
      then show ?thesis using inv False by (auto simp: best_so_far_def)
    next
      case (Some row)
      with inv obtain k where k: "k < length seen" "row = seen ! k" "bs = score_of env q row"
        "jgt bs NegInf" "\<forall>j<k. score_of env q (seen ! j) \<noteq> bs"
        by (auto simp: best_so_far_def)
      have "\<forall>j<length (seen @ [r]). \<not> jgt (score_of env q ((seen @ [r]) ! j)) bs"
        using below False by (auto simp: nth_append less_Suc_eq)
      moreover have "\<forall>j<k. score_of env q ((seen @ [r]) ! j) \<noteq> bs"
        using k by (auto simp: nth_append)
      ultimately show ?thesis using Some False nn k
        by (auto simp: best_so_far_def nth_append intro!: exI[of _ k])
    qed
  qed
qed

lemma select_loop_step:
  "json_parse env (embedding r) = Inr v \<Longrightarrow>
   select_loop env q (r # rows) bm bs w =
     select_loop env q rows
       (if jgt (score_of env q r) bs then Some r else bm)
       (if jgt (score_of env q r) bs then score_of env q r else bs)
       (emit (Log_score (entry_id r) (score_of env q r)) w)"
  by (simp add: score_of_def Let_def)

lemma select_loop_invariant:
  "best_so_far env q seen bm bs \<Longrightarrow>
   select_loop env q rows bm bs w = (Inr (bm', bs'), w') \<Longrightarrow>
   best_so_far env q (seen @ rows) bm' bs'"
proof (induction rows arbitrary: seen bm bs w)
  case Nil
  then show ?case by simp
next
  case (Cons r rows)
  from Cons.prems(2) obtain v where v: "json_parse env (embedding r) = Inr v"
    by (cases "json_parse env (embedding r)") auto
  let ?s = "score_of env q r"
  have "best_so_far env q ((seen @ [r]) @ rows) bm' bs'"
    using Cons.prems(2) best_so_far_step[OF Cons.prems(1), of r]
    unfolding select_loop_step[OF v]
    by (rule Cons.IH[rotated])
  then show ?case by simp
qed


lemma select_loop_scan:
  assumes "\<forall>r\<in>set rows. \<exists>v. json_parse env (embedding r) = Inr v"
  shows "select_loop env q rows bm bs w =
           (Inr (scan env q rows bm bs), w\<lparr>trace := trace w @ score_lines env q rows\<rparr>)"
  using assms
proof (induction rows arbitrary: bm bs w)
  case Nil
  then show ?case by (simp add: score_lines_def)
next
  case (Cons r rows)
  then obtain v where v: "json_parse env (embedding r) = Inr v" by auto
  have rest: "\<forall>r\<in>set rows. \<exists>v. json_parse env (embedding r) = Inr v" using Cons.prems by simp
  show ?case unfolding select_loop_step[OF v]
    by (simp add: Cons.IH[OF rest] emit_def score_lines_def)
qed

lemma scan_invariant:
  "best_so_far env q seen bm bs \<Longrightarrow> scan env q rows bm bs = (bm', bs') \<Longrightarrow>
   best_so_far env q (seen @ rows) bm' bs'"
proof (induction rows arbitrary: seen bm bs)
  case Nil
  then show ?case by simp
next
  case (Cons r rows)
  have "best_so_far env q ((seen @ [r]) @ rows) bm' bs'"
    using best_so_far_step[OF Cons.prems(1), of r] Cons.prems(2)
    by (intro Cons.IH[of "seen @ [r]" "if jgt (score_of env q r) bs then Some r else bm"
          "if jgt (score_of env q r) bs then score_of env q r else bs"]) (auto split: if_splits)
  then show ?case by simp
qed

lemma best_so_far_start: "best_so_far env q [] None NegInf"
  by (simp add: best_so_far_def)

lemma scan_best: "scan env q rows None NegInf = (bm, bs) \<Longrightarrow> best_so_far env q rows bm bs"
  using scan_invariant[OF best_so_far_start, of env q rows bm bs] by simp

lemma query_reaches_selection:
  assumes valid: "validateRequest_query d = Inr prompt"
      and ai: "ai_run env prompt = Inr queryResp"
      and db: "\<not> db_fault env"
      and ne: "entries w \<noteq> []"
      and parse: "\<forall>r\<in>set (entries w). \<exists>v. json_parse env (embedding r) = Inr v"
      and best: "scan env (first_or_self queryResp) (entries w) None NegInf = (bm, bs)"
  shows "query env (Body d) w =
     (let seen = trace w @ query_prelude prompt queryResp (length (entries w))
                   @ score_lines env (first_or_self queryResp) (entries w)
                   @ [Log_best (map_option entry_id bm) bs]
      in if rejected bm bs then (NotFound, w\<lparr>trace := seen\<rparr>)
         else (case bm of
                 None \<Rightarrow> (Json 500 (Error_message ''Internal server error''),
                            w\<lparr>trace := seen @ [Error_query TypeError]\<rparr>)
               | Some row \<Rightarrow>
                   (if bucket_fault env
                    then (Json 500 (Error_message ''Internal server error''),
                          w\<lparr>trace := seen @ [Get (entry_id row @ ''.svg''), Error_query StoreError]\<rparr>)
                    else (case bucket w (entry_id row @ ''.svg'') of
                            None \<Rightarrow> (NotFound,
                               w\<lparr>trace := seen @ [Get (entry_id row @ ''.svg''),
                                                  Log_qr_missing (entry_id row)]\<rparr>)
                          | Some qr \<Rightarrow>
                              (Json 200 (Match (entry_id row) (entry_text row) qr bs (created_at row)),
                               w\<lparr>trace := seen @ [Get (entry_id row @ ''.svg'')]\<rparr>)))))"
  using valid ai db ne best
  by (simp add: query_def query_try_def AI_run_def db_select_all_def emit_def Let_def
        select_loop_scan[OF parse] bucket_get_def query_prelude_def
        split: option.splits)


subsection \<open>The example deployment\<close>

lemma demo_cos_same [simp]:
  "cosineSimilarity [Fin 1, Fin 0, Fin 0, Fin 0] [Fin 1, Fin 0, Fin 0, Fin 0] = Fin 1"
  by (simp add: cosineSimilarity_def at_num_def)

lemma demo_cos_far [simp]:
  "cosineSimilarity [Fin 1, Fin 0, Fin 0, Fin 0] [Fin 2, Fin 4, Fin 2, Fin 1] = Fin (3602879701896397 / 9007199254740992)"
  by (simp add: cosineSimilarity_def at_num_def sqrt_25)

lemma demo_cos_zero_a [simp]:
  "cosineSimilarity [Fin 0, Fin 0, Fin 0, Fin 0] [Fin 1, Fin 0, Fin 0, Fin 0] = NaN"
  by (simp add: cosineSimilarity_def at_num_def)

lemma demo_cos_zero_b [simp]:
  "cosineSimilarity [Fin 0, Fin 0, Fin 0, Fin 0] [Fin 2, Fin 4, Fin 2, Fin 1] = NaN"
  by (simp add: cosineSimilarity_def at_num_def sqrt_25)

lemma demo_cos_zero_c [simp]:
  "cosineSimilarity [Fin 1, Fin 0, Fin 0, Fin 0] [Fin 0, Fin 0, Fin 0, Fin 0] = NaN"
  by (simp add: cosineSimilarity_def at_num_def)

lemma demo_scores [simp]:
  "score_of demo_env [Fin 1, Fin 0, Fin 0, Fin 0] doc1 = Fin 1"
  "score_of demo_env [Fin 1, Fin 0, Fin 0, Fin 0] doc2 = Fin (3602879701896397 / 9007199254740992)"
  "score_of demo_env [Fin 1, Fin 0, Fin 0, Fin 0] doc3 = Fin 1"
  "score_of demo_env [Fin 0, Fin 0, Fin 0, Fin 0] doc1 = NaN"
  "score_of demo_env [Fin 0, Fin 0, Fin 0, Fin 0] doc2 = NaN"
  "score_of demo_env [Fin 1, Fin 0, Fin 0, Fin 0] doc0 = NaN"
  by (simp_all add: score_of_def demo_env_def doc0_def doc1_def doc2_def doc3_def)

lemma demo_parse [simp]:
  "\<exists>v. json_parse demo_env (embedding doc1) = Inr v"
  "\<exists>v. json_parse demo_env (embedding doc2) = Inr v"
  "\<exists>v. json_parse demo_env (embedding doc3) = Inr v"
  "\<exists>v. json_parse demo_env (embedding doc0) = Inr v"
  by (simp_all add: demo_env_def doc0_def doc1_def doc2_def doc3_def)

lemma demo_ids [simp]:
  "entry_id doc1 = ''doc-1''" "entry_id doc2 = ''doc-2''" "entry_id doc3 = ''doc-3''"
  "entry_id doc0 = ''doc-0''"
  by (simp_all add: doc0_def doc1_def doc2_def doc3_def)

subsection \<open>The threshold\<close>

lemma best_not_rejected:
  "best_so_far env q seen bm bs \<Longrightarrow>
     (\<not> rejected bm bs) = (bm \<noteq> None \<and> jge bs (to_double (6 / 10)))"
  by (auto simp: best_so_far_def rejected_def jge_def jlt_def)

lemma best_above_threshold:
  "best_so_far env q seen bm bs \<Longrightarrow> jge bs (to_double (6 / 10)) \<Longrightarrow> \<exists>row. bm = Some row"
  by (cases bm) (auto simp: best_so_far_def jge_def)

lemma select_loop_fst:
  assumes "\<forall>r\<in>set rows. \<exists>v. json_parse env (embedding r) = Inr v"
  shows "fst (select_loop env q rows bm bs w) = Inr (scan env q rows bm bs)"
  by (simp add: select_loop_scan[OF assms])

section \<open>Properties of registration\<close>

lemma validateRequest_encode_ok:
  assumes "validateRequest_encode d = Inr (t, i)"
  shows "text_field d = Some t \<and> id_field d = Some i \<and> t \<noteq> [] \<and> length t \<le> 10000
           \<and> i \<noteq> [] \<and> length i \<le> 100 \<and> list_all id_char i"
proof -
  from assms have nil: "text_issues (text_field d) @ id_issues (id_field d) = []"
    and t: "text_field d = Some t" and i: "id_field d = Some i"
    by (auto simp: validateRequest_encode_def split: list.splits option.splits)
  from nil t have "t \<noteq> [] \<and> length t \<le> 10000"
    by (auto simp: text_issues_def split: if_splits)
  moreover from nil i have "i \<noteq> [] \<and> length i \<le> 100 \<and> list_all id_char i"
    by (auto simp: id_issues_def split: if_splits)
  ultimately show ?thesis using t i by simp
qed

lemma encode_valid:
  assumes valid: "validateRequest_encode d = Inr (text, ident)"
  shows "encode env (Body d) w =
     (let failed = Json 500 (Error_message ''Internal server error'');
          key = ident @ ''.svg''
      in case render env text of
           Inl e \<Rightarrow> (failed, w\<lparr>trace := trace w @ [Render text, Error_encode e]\<rparr>)
         | Inr svg \<Rightarrow>
             if bucket_fault env
             then (failed, w\<lparr>trace := trace w @ [Render text, Put key svg, Error_encode StoreError]\<rparr>)
             else
               (case ai_run env text of
                  Inl e \<Rightarrow>
                    (failed, w\<lparr>bucket := (bucket w)(key \<mapsto> svg),
                               trace := trace w @ [Render text, Put key svg, AiRun text,
                                                   Error_encode e]\<rparr>)
                | Inr resp \<Rightarrow>
                    (let emb = json_stringify env (first_or_self resp);
                         steps = [Render text, Put key svg, AiRun text, Log_encode_response resp,
                                  Log_encode_length (length (first_or_self resp)),
                                  Insert ident text emb]
                     in if db_fault env
                        then (failed, w\<lparr>bucket := (bucket w)(key \<mapsto> svg),
                                        trace := trace w @ steps @ [Error_encode StoreError]\<rparr>)
                        else if ident \<in> entry_id ` set (entries w)
                        then (failed, w\<lparr>bucket := (bucket w)(key \<mapsto> svg),
                                        trace := trace w @ steps @ [Error_encode ConstraintError]\<rparr>)
                        else (Json 200 Success,
                              w\<lparr>bucket := (bucket w)(key \<mapsto> svg),
                                 entries := entries w @
                                   [\<lparr>entry_id = ident, entry_text = text, embedding = emb,
                                     created_at = now env\<rparr>],
                                 trace := trace w @ steps\<rparr>))))"
proof -
  have ne: "text \<noteq> []" using validateRequest_encode_ok[OF valid] by simp
  show ?thesis using valid ne
    by (simp add: encode_def encode_try_def generateQRCodeSVG_def bucket_put_def AI_run_def
          db_insert_def emit_def Let_def split: sum.splits)
qed

section \<open>The example deployment, evaluated\<close>

lemma demo_valid_query [simp]:
  "validateRequest_query hello = Inr ''hello world''"
  "validateRequest_query edge = Inr ''edge''"
  by (simp_all add: validateRequest_query_def prompt_issues_def hello_def edge_def)

lemma demo_ai [simp]:
  "ai_run demo_env ''hello world'' = Inr [ [Fin 1, Fin 0, Fin 0, Fin 0] ]"
  "ai_run demo_env ''goodbye'' = Inr [ [Fin 2, Fin 4, Fin 2, Fin 1] ]"
  "ai_run demo_env ''edge'' = Inr [ [Fin 3, Fin 4, Fin 0, Fin 0] ]"
  "ai_run demo_env ''unknown'' = Inl AiError"
  by (simp_all add: demo_env_def)

lemma demo_faults [simp]: "\<not> db_fault demo_env" "\<not> bucket_fault demo_env"
  by (simp_all add: demo_env_def)

lemma demo_cos_edge [simp]:
  "cosineSimilarity [Fin 3, Fin 4, Fin 0, Fin 0] [Fin 1, Fin 0, Fin 0, Fin 0] = Fin (5404319552844595 / 9007199254740992)"
  by (simp add: cosineSimilarity_def at_num_def sqrt_25)

lemma demo_score_edge [simp]:
  "score_of demo_env [Fin 3, Fin 4, Fin 0, Fin 0] doc1 = Fin (5404319552844595 / 9007199254740992)"
  by (simp add: score_of_def demo_env_def doc1_def)

lemma demo_fields [simp]:
  "entry_text doc1 = ''hello world''" "created_at doc1 = ''2025-01-01 00:00:00''"
  by (simp_all add: doc1_def)

lemma demo_world_sel [simp]:
  "entries (demo_world b rows) = rows" "bucket (demo_world b rows) = b"
  "trace (demo_world b rows) = []"
  by (simp_all add: demo_world_def)

lemma demo_parse_eq [simp]:
  "json_parse demo_env (embedding doc1) = Inr [Fin 1, Fin 0, Fin 0, Fin 0]"
  "json_parse demo_env (embedding doc2) = Inr [Fin 2, Fin 4, Fin 2, Fin 1]"
  "json_parse demo_env (embedding doc3) = Inr [Fin 1, Fin 0, Fin 0, Fin 0]"
  "json_parse demo_env (embedding doc0) = Inr [Fin 0, Fin 0, Fin 0, Fin 0]"
  by (simp_all add: demo_env_def doc0_def doc1_def doc2_def doc3_def)

lemma demo_loop_far [simp]:
  "fst (select_loop demo_env [Fin 1, Fin 0, Fin 0, Fin 0] [doc2] None NegInf w)
     = Inr (Some doc2, Fin (3602879701896397 / 9007199254740992))"
  by (simp add: Let_def)

lemma demo_loop_edge [simp]:
  "fst (select_loop demo_env [Fin 3, Fin 4, Fin 0, Fin 0] [doc1] None NegInf w)
     = Inr (Some doc1, Fin (5404319552844595 / 9007199254740992))"
  by (simp add: Let_def)

lemma demo_loop_near [simp]:
  "fst (select_loop demo_env [Fin 1, Fin 0, Fin 0, Fin 0] [doc2, doc1] None NegInf w)
     = Inr (Some doc1, Fin 1)"
  by (simp add: Let_def)

lemma demo_valid_encode [simp]:
  "validateRequest_encode register_goodbye_as_doc1 = Inr (''goodbye'', ''doc-1'')"
  "validateRequest_encode register_unknown = Inr (''unknown'', ''doc-9'')"
  "validateRequest_encode register_goodbye = Inr (''goodbye'', ''doc-2'')"
  by (simp_all add: validateRequest_encode_def text_issues_def id_issues_def id_char_def
        register_goodbye_as_doc1_def register_unknown_def register_goodbye_def)

lemma demo_render [simp]:
  "render demo_env ''goodbye'' = Inr ''<svg>goodbye</svg>''"
  "render demo_env ''unknown'' = Inr ''<svg>unknown</svg>''"
  by (simp_all add: demo_env_def)

lemma demo_stringify [simp]:
  "json_stringify demo_env [Fin 2, Fin 4, Fin 2, Fin 1] = ''[2,4,2,1]''"
  by (simp add: demo_env_def)

lemma demo_now [simp]: "now demo_env = ''2025-01-01 00:00:00''"
  by (simp add: demo_env_def)

section \<open>The claims about selection\<close>

text \<open>
  C2, as the code has it. Over rows whose embeddings parse, the loop computes and logs the
  score of each row exactly once, in order. If some score is greater than \<^verbatim>\<open>-Infinity\<close>,
  the loop returns the first row whose score no other score exceeds, with that score, which
  is a number greater than \<^verbatim>\<open>-Infinity\<close>; a row whose score is \<^verbatim>\<open>NaN\<close> is never
  selected. If no score is greater than \<^verbatim>\<open>-Infinity\<close>, the
  loop returns no row.
\<close>

theorem select_loop_first_maximum:
  assumes "\<forall>r\<in>set results. \<exists>v. json_parse env (embedding r) = Inr v"
  shows "\<exists>bestMatch bestScore.
     select_loop env q results None NegInf w =
       (Inr (bestMatch, bestScore),
        w\<lparr>trace := trace w @ map (\<lambda>r. Log_score (entry_id r) (score_of env q r)) results\<rparr>)
     \<and> (if \<exists>r\<in>set results. jgt (score_of env q r) NegInf
        then \<exists>k<length results. bestMatch = Some (results ! k)
               \<and> bestScore = score_of env q (results ! k)
               \<and> bestScore \<noteq> NaN \<and> jgt bestScore NegInf
               \<and> (\<forall>j<length results. \<not> jgt (score_of env q (results ! j)) bestScore)
               \<and> (\<forall>j<k. score_of env q (results ! j) \<noteq> bestScore)
        else bestMatch = None \<and> bestScore = NegInf)"
proof -
  obtain bm bs where best: "scan env q results None NegInf = (bm, bs)" by force
  have inv: "best_so_far env q results bm bs" using best by (rule scan_best)
  have run: "select_loop env q results None NegInf w =
       (Inr (bm, bs),
        w\<lparr>trace := trace w @ map (\<lambda>r. Log_score (entry_id r) (score_of env q r)) results\<rparr>)"
    using select_loop_scan[OF assms, of q None NegInf w] best by (simp add: score_lines_def)
  show ?thesis
  proof (cases "\<exists>r\<in>set results. jgt (score_of env q r) NegInf")
    case True
    with inv obtain row where "bm = Some row" by (cases bm) (auto simp: best_so_far_def)
    with inv True run show ?thesis by (auto simp: best_so_far_def)
  next
    case False
    have "bm = None"
    proof (cases bm)
      case (Some row)
      with inv obtain k where "k < length results" "jgt (score_of env q (results ! k)) NegInf"
        by (auto simp: best_so_far_def)
      with False show ?thesis using nth_mem by blast
    qed simp
    with inv False run show ?thesis by (auto simp: best_so_far_def)
  qed
qed

theorem select_loop_first_maximum_witness:
  "json_parse demo_env (embedding doc2) = Inr [Fin 2, Fin 4, Fin 2, Fin 1]
   \<and> json_parse demo_env (embedding doc0) = Inr [Fin 0, Fin 0, Fin 0, Fin 0]
   \<and> json_parse demo_env (embedding doc1) = Inr [Fin 1, Fin 0, Fin 0, Fin 0]
   \<and> json_parse demo_env (embedding doc3) = Inr [Fin 1, Fin 0, Fin 0, Fin 0]
   \<and> jgt (score_of demo_env [Fin 1, Fin 0, Fin 0, Fin 0] doc2) NegInf
   \<and> select_loop demo_env [Fin 1, Fin 0, Fin 0, Fin 0] [doc2, doc0, doc1, doc3] None NegInf
        (demo_world Map.empty [doc2, doc0, doc1, doc3])
      = (Inr (Some doc1, Fin 1),
         \<lparr>bucket = Map.empty, entries = [doc2, doc0, doc1, doc3],
          trace = [Log_score ''doc-2'' (Fin (3602879701896397 / 9007199254740992)),
                   Log_score ''doc-0'' NaN, Log_score ''doc-1'' (Fin 1),
                   Log_score ''doc-3'' (Fin 1)]\<rparr>)"
proof -
  have parse: "\<forall>r\<in>set [doc2, doc0, doc1, doc3]. \<exists>v. json_parse demo_env (embedding r) = Inr v"
    by simp
  show ?thesis
    using select_loop_first_maximum[OF parse, of "[Fin 1, Fin 0, Fin 0, Fin 0]"
            "demo_world Map.empty [doc2, doc0, doc1, doc3]"]
    unfolding select_loop_scan[OF parse]
    by (simp add: score_lines_def demo_world_def)
qed

text \<open>
  C2 as stated fails: with a query vector of zero magnitude every score is \<^verbatim>\<open>NaN\<close>, and
  the loop over two candidates returns none of them.
\<close>

theorem select_loop_all_NaN_no_winner:
  "[doc2, doc1] \<noteq> []
   \<and> fst (select_loop demo_env [Fin 0, Fin 0, Fin 0, Fin 0] [doc2, doc1] None NegInf
           (demo_world Map.empty [doc2, doc1])) = Inr (None, NegInf)"
proof -
  have parse: "\<forall>r\<in>set [doc2, doc1]. \<exists>v. json_parse demo_env (embedding r) = Inr v"
    by simp
  show ?thesis unfolding select_loop_scan[OF parse] by simp
qed


text \<open>
  C5, as the code has it. For equal-length real vectors of which one has zero magnitude the
  comparator returns \<^verbatim>\<open>NaN\<close>; the selection loop logs that score and compares it with
  \<^verbatim>\<open>></\<close>, which is false, so the row is passed over and \<^verbatim>\<open>bestMatch\<close> and
  \<^verbatim>\<open>bestScore\<close> stay as they were.
\<close>

theorem zero_magnitude_is_NaN:
  assumes "length a = length b" and "euclidean_norm a = 0 \<or> euclidean_norm b = 0"
  shows "cosineSimilarity (map Fin a) (map Fin b) = NaN
     \<and> (json_parse env (embedding row) = Inr (map Fin b) \<longrightarrow>
          select_loop env (map Fin a) (row # results) bestMatch bestScore w
            = select_loop env (map Fin a) results bestMatch bestScore
                (emit (Log_score (entry_id row) NaN) w))"
  using cosineSimilarity_zero_magnitude[OF assms] by (simp add: Let_def)

theorem zero_magnitude_is_NaN_witness:
  "length [0, 0, 0, 0 :: real] = length [1, 0, 0, 0 :: real]
   \<and> euclidean_norm [0, 0, 0, 0] = 0
   \<and> json_parse demo_env (embedding doc1) = Inr (map Fin [1, 0, 0, 0])
   \<and> cosineSimilarity (map Fin [0, 0, 0, 0]) (map Fin [1, 0, 0, 0]) = NaN
   \<and> select_loop demo_env (map Fin [0, 0, 0, 0]) [doc1] None NegInf (demo_world Map.empty [doc1])
       = (Inr (None, NegInf),
          \<lparr>bucket = Map.empty, entries = [doc1], trace = [Log_score ''doc-1'' NaN]\<rparr>)"
  using zero_magnitude_is_NaN[of "[0, 0, 0, 0]" "[1, 0, 0, 0]" demo_env doc1 "[]" None NegInf
          "demo_world Map.empty [doc1]"]
  by (simp add: euclidean_norm_def emit_def demo_world_def del: select_loop.simps(2))

text \<open>
  C5 as stated fails: the comparator returns \<^verbatim>\<open>NaN\<close> for a zero query vector, neither
  a lowest similarity nor an error, and the loop takes that \<^verbatim>\<open>NaN\<close> into its comparison
  and ends without a match.
\<close>

theorem zero_magnitude_reaches_comparison:
  "cosineSimilarity [Fin 0, Fin 0, Fin 0, Fin 0] [Fin 1, Fin 0, Fin 0, Fin 0] = NaN
   \<and> trace (snd (select_loop demo_env [Fin 0, Fin 0, Fin 0, Fin 0] [doc1] None NegInf
                   (demo_world Map.empty [doc1]))) = [Log_score ''doc-1'' NaN]
   \<and> fst (select_loop demo_env [Fin 0, Fin 0, Fin 0, Fin 0] [doc1] None NegInf
            (demo_world Map.empty [doc1])) = Inr (None, NegInf)"
  by (simp add: Let_def emit_def)

section \<open>The claims about retrieval\<close>

text \<open>
  C3. After a scan of a non-empty collection, the best match is accepted exactly when its
  score is \<^verbatim>\<open>>= 0.6\<close>, the double of that literal included: then the handler fetches
  the artifact of the best row and answers with the match (or with what the bucket's
  answer entails); otherwise, for instance with a best score of 0.4, it answers not found.
\<close>

theorem threshold_is_inclusive:
  assumes valid: "validateRequest_query d = Inr prompt"
      and ai: "ai_run env prompt = Inr queryResp"
      and db: "\<not> db_fault env"
      and ne: "entries w \<noteq> []"
      and parse: "\<forall>r\<in>set (entries w). \<exists>v. json_parse env (embedding r) = Inr v"
  shows "\<exists>bestMatch bestScore.
     fst (select_loop env (first_or_self queryResp) (entries w) None NegInf w)
       = Inr (bestMatch, bestScore)
     \<and> (if jge bestScore (to_double (6 / 10))
        then \<exists>row. bestMatch = Some row
               \<and> Get (entry_id row @ ''.svg'') \<in> set (trace (snd (query env (Body d) w)))
               \<and> fst (query env (Body d) w) =
                   (if bucket_fault env then Json 500 (Error_message ''Internal server error'')
                    else case bucket w (entry_id row @ ''.svg'') of
                           None \<Rightarrow> NotFound
                         | Some qr \<Rightarrow> Json 200 (Match (entry_id row) (entry_text row) qr
                                                    bestScore (created_at row)))
        else fst (query env (Body d) w) = NotFound)"
proof -
  obtain bm bs where best: "scan env (first_or_self queryResp) (entries w) None NegInf = (bm, bs)"
    by force
  have inv: "best_so_far env (first_or_self queryResp) (entries w) bm bs"
    using best by (rule scan_best)
  note run = query_reaches_selection[OF valid ai db ne parse best]
  have loop: "fst (select_loop env (first_or_self queryResp) (entries w) None NegInf w)
                = Inr (bm, bs)"
    using best by (simp add: select_loop_fst[OF parse])
  show ?thesis
  proof (cases "jge bs (to_double (6 / 10))")
    case True
    then obtain row where row: "bm = Some row" using best_above_threshold[OF inv] by blast
    have "\<not> rejected bm bs" using best_not_rejected[OF inv] True row by simp
    then show ?thesis using loop True row
      by (auto simp: run Let_def split: option.splits)
  next
    case False
    then have "rejected bm bs" using best_not_rejected[OF inv] by simp
    then show ?thesis using loop False by (simp add: run Let_def)
  qed
qed

theorem threshold_is_inclusive_witness:
  "validateRequest_query hello = Inr ''hello world''
   \<and> ai_run demo_env ''hello world'' = Inr [ [Fin 1, Fin 0, Fin 0, Fin 0] ]
   \<and> \<not> db_fault demo_env
   \<and> entries (demo_world Map.empty [doc2]) \<noteq> []
   \<and> json_parse demo_env (embedding doc2) = Inr [Fin 2, Fin 4, Fin 2, Fin 1]
   \<and> fst (select_loop demo_env [Fin 1, Fin 0, Fin 0, Fin 0] [doc2] None NegInf
           (demo_world Map.empty [doc2])) = Inr (Some doc2, Fin (3602879701896397 / 9007199254740992))
   \<and> fst (query demo_env (Body hello) (demo_world Map.empty [doc2])) = NotFound
   \<and> validateRequest_query edge = Inr ''edge''
   \<and> ai_run demo_env ''edge'' = Inr [ [Fin 3, Fin 4, Fin 0, Fin 0] ]
   \<and> json_parse demo_env (embedding doc1) = Inr [Fin 1, Fin 0, Fin 0, Fin 0]
   \<and> fst (select_loop demo_env [Fin 3, Fin 4, Fin 0, Fin 0] [doc1] None NegInf
           (demo_world [''doc-1.svg'' \<mapsto> ''<svg>hello world</svg>''] [doc1]))
        = Inr (Some doc1, Fin (5404319552844595 / 9007199254740992))
   \<and> fst (query demo_env (Body edge) (demo_world [''doc-1.svg'' \<mapsto> ''<svg>hello world</svg>''] [doc1]))
        = Json 200 (Match ''doc-1'' ''hello world'' ''<svg>hello world</svg>'' (Fin (5404319552844595 / 9007199254740992))
                     ''2025-01-01 00:00:00'')"
  using threshold_is_inclusive[of hello "''hello world''" demo_env "[ [Fin 1, Fin 0, Fin 0, Fin 0] ]"
          "demo_world Map.empty [doc2]"]
        threshold_is_inclusive[of edge "''edge''" demo_env "[ [Fin 3, Fin 4, Fin 0, Fin 0] ]"
          "demo_world [''doc-1.svg'' \<mapsto> ''<svg>hello world</svg>''] [doc1]"]
  by (simp add: first_or_self_def jge_def del: select_loop.simps)

text \<open>
  C6. A valid query over an empty collection, once the embedding provider and the database
  have answered, ends in \<^verbatim>\<open>c.notFound()\<close>: the response is not the 500 of the
  \<^verbatim>\<open>catch\<close> block, and nothing is logged as an error.
\<close>

theorem query_empty_collection:
  assumes valid: "validateRequest_query d = Inr prompt"
      and ai: "ai_run env prompt = Inr queryResp"
      and db: "\<not> db_fault env"
      and empty: "entries w = []"
  shows "query env (Body d) w =
           (NotFound, w\<lparr>trace := trace w @ query_prelude prompt queryResp 0\<rparr>)"
  using assms
  by (simp add: query_def query_try_def AI_run_def db_select_all_def emit_def Let_def
        query_prelude_def)

theorem query_empty_collection_witness:
  "validateRequest_query hello = Inr ''hello world''
   \<and> ai_run demo_env ''hello world'' = Inr [ [Fin 1, Fin 0, Fin 0, Fin 0] ]
   \<and> \<not> db_fault demo_env
   \<and> entries (demo_world Map.empty []) = []
   \<and> query demo_env (Body hello) (demo_world Map.empty []) =
       (NotFound,
        \<lparr>bucket = Map.empty, entries = [],
         trace = [Log_searching ''hello world'', AiRun ''hello world'',
                  Log_query_response [ [Fin 1, Fin 0, Fin 0, Fin 0] ], Log_query_length 4,
                  SelectAll, Log_found 0]\<rparr>)"
  using query_empty_collection[of hello "''hello world''" demo_env "[ [Fin 1, Fin 0, Fin 0, Fin 0] ]"
          "demo_world Map.empty []"]
  by (simp add: query_prelude_def first_or_self_def demo_world_def)

text \<open>
  C7, as the code has it. When the accepted best match's artifact is absent from the
  bucket, the handler writes a console line naming the row and answers with the same
  \<^verbatim>\<open>c.notFound()\<close> as for a genuine no-match.
\<close>

theorem missing_artifact_is_not_found:
  assumes valid: "validateRequest_query d = Inr prompt"
      and ai: "ai_run env prompt = Inr queryResp"
      and db: "\<not> db_fault env"
      and ne: "entries w \<noteq> []"
      and parse: "\<forall>r\<in>set (entries w). \<exists>v. json_parse env (embedding r) = Inr v"
      and best: "fst (select_loop env (first_or_self queryResp) (entries w) None NegInf w)
                   = Inr (Some row, bestScore)"
      and accepted: "jge bestScore (to_double (6 / 10))"
      and r2: "\<not> bucket_fault env"
      and missing: "bucket w (entry_id row @ ''.svg'') = None"
  shows "fst (query env (Body d) w) = NotFound
     \<and> last (trace (snd (query env (Body d) w))) = Log_qr_missing (entry_id row)"
proof -
  have sc: "scan env (first_or_self queryResp) (entries w) None NegInf = (Some row, bestScore)"
    using best by (simp add: select_loop_fst[OF parse])
  have inv: "best_so_far env (first_or_self queryResp) (entries w) (Some row) bestScore"
    using sc by (rule scan_best)
  have "\<not> rejected (Some row) bestScore" using best_not_rejected[OF inv] accepted by simp
  then show ?thesis using r2 missing
    by (simp add: query_reaches_selection[OF valid ai db ne parse sc] Let_def)
qed

theorem missing_artifact_is_not_found_witness:
  "validateRequest_query hello = Inr ''hello world''
   \<and> ai_run demo_env ''hello world'' = Inr [ [Fin 1, Fin 0, Fin 0, Fin 0] ]
   \<and> \<not> db_fault demo_env
   \<and> entries (demo_world Map.empty [doc2, doc1]) \<noteq> []
   \<and> json_parse demo_env (embedding doc2) = Inr [Fin 2, Fin 4, Fin 2, Fin 1]
   \<and> json_parse demo_env (embedding doc1) = Inr [Fin 1, Fin 0, Fin 0, Fin 0]
   \<and> fst (select_loop demo_env [Fin 1, Fin 0, Fin 0, Fin 0] [doc2, doc1] None NegInf
           (demo_world Map.empty [doc2, doc1])) = Inr (Some doc1, Fin 1)
   \<and> jge (Fin 1) (to_double (6 / 10))
   \<and> \<not> bucket_fault demo_env
   \<and> bucket (demo_world Map.empty [doc2, doc1]) (entry_id doc1 @ ''.svg'') = None
   \<and> fst (query demo_env (Body hello) (demo_world Map.empty [doc2, doc1])) = NotFound
   \<and> last (trace (snd (query demo_env (Body hello) (demo_world Map.empty [doc2, doc1]))))
        = Log_qr_missing ''doc-1''"
  using missing_artifact_is_not_found[of hello "''hello world''" demo_env
          "[ [Fin 1, Fin 0, Fin 0, Fin 0] ]" "demo_world Map.empty [doc2, doc1]" doc1 "Fin 1"]
  by (simp add: first_or_self_def jge_def del: select_loop.simps)

text \<open>
  C7 as stated fails: a query whose accepted match has no artifact, a query whose best
  score is below the threshold and a query over an empty collection get the same response.
\<close>

theorem missing_artifact_answers_like_no_match:
  "fst (query demo_env (Body hello) (demo_world Map.empty [doc2, doc1])) = NotFound
   \<and> fst (query demo_env (Body hello)
            (demo_world [''doc-2.svg'' \<mapsto> ''<svg>goodbye</svg>''] [doc2])) = NotFound
   \<and> fst (query demo_env (Body hello) (demo_world Map.empty [])) = NotFound"
proof -
  have p1: "\<forall>r\<in>set (entries (demo_world Map.empty [doc2, doc1])).
              \<exists>v. json_parse demo_env (embedding r) = Inr v" by simp
  have s1: "scan demo_env (first_or_self [ [Fin 1, Fin 0, Fin 0, Fin 0] ])
              (entries (demo_world Map.empty [doc2, doc1])) None NegInf = (Some doc1, Fin 1)"
    by (simp add: first_or_self_def)
  have p2: "\<forall>r\<in>set (entries (demo_world [''doc-2.svg'' \<mapsto> ''<svg>goodbye</svg>''] [doc2])).
              \<exists>v. json_parse demo_env (embedding r) = Inr v" by simp
  have s2: "scan demo_env (first_or_self [ [Fin 1, Fin 0, Fin 0, Fin 0] ])
              (entries (demo_world [''doc-2.svg'' \<mapsto> ''<svg>goodbye</svg>''] [doc2])) None NegInf
              = (Some doc2, Fin (3602879701896397 / 9007199254740992))"
    by (simp add: first_or_self_def)
  have "fst (query demo_env (Body hello) (demo_world Map.empty [doc2, doc1])) = NotFound"
    by (simp add: query_reaches_selection[OF demo_valid_query(1) demo_ai(1) demo_faults(1) _ p1 s1]
          Let_def rejected_def jlt_def)
  moreover have "fst (query demo_env (Body hello)
            (demo_world [''doc-2.svg'' \<mapsto> ''<svg>goodbye</svg>''] [doc2])) = NotFound"
    by (simp add: query_reaches_selection[OF demo_valid_query(1) demo_ai(1) demo_faults(1) _ p2 s2]
          Let_def rejected_def jlt_def)
  moreover have "fst (query demo_env (Body hello) (demo_world Map.empty [])) = NotFound"
    by (simp add: query_def query_try_def AI_run_def db_select_all_def emit_def Let_def)
  ultimately show ?thesis by simp
qed

section \<open>The claims about registration\<close>

text \<open>
  C8. A valid registration calls its collaborators in the order render, put, embed,
  insert, and stops at the first call that fails. Once the artifact is written, a failure
  of the embedding or of the insert leaves the artifact in the bucket, writes no row and
  answers 500; otherwise the row is appended and the answer is the success.
\<close>

theorem registration_steps_in_order:
  assumes valid: "validateRequest_encode d = Inr (text, ident)"
  shows "filter is_call (fresh (trace w) (snd (encode env (Body d) w))) =
           (case render env text of
              Inl e \<Rightarrow> [Render text]
            | Inr svg \<Rightarrow>
                if bucket_fault env then [Render text, Put (ident @ ''.svg'') svg]
                else (case ai_run env text of
                        Inl e \<Rightarrow> [Render text, Put (ident @ ''.svg'') svg, AiRun text]
                      | Inr resp \<Rightarrow>
                          [Render text, Put (ident @ ''.svg'') svg, AiRun text,
                           Insert ident text (json_stringify env (first_or_self resp))]))
     \<and> (\<forall>svg. render env text = Inr svg \<and> \<not> bucket_fault env \<longrightarrow>
           bucket (snd (encode env (Body d) w)) = (bucket w)(ident @ ''.svg'' \<mapsto> svg)
           \<and> (if (\<exists>e. ai_run env text = Inl e) \<or> db_fault env
                    \<or> ident \<in> entry_id ` set (entries w)
                then fst (encode env (Body d) w) = Json 500 (Error_message ''Internal server error'')
                       \<and> entries (snd (encode env (Body d) w)) = entries w
                else fst (encode env (Body d) w) = Json 200 Success
                       \<and> (\<exists>resp. ai_run env text = Inr resp
                             \<and> entries (snd (encode env (Body d) w)) = entries w @
                                 [\<lparr>entry_id = ident, entry_text = text,
                                   embedding = json_stringify env (first_or_self resp),
                                   created_at = now env\<rparr>])))"
  by (cases "render env text"; cases "ai_run env text")
     (auto simp: encode_valid[OF valid] fresh_def Let_def)

theorem registration_steps_in_order_witness:
  "validateRequest_encode register_unknown = Inr (''unknown'', ''doc-9'')
   \<and> render demo_env ''unknown'' = Inr ''<svg>unknown</svg>''
   \<and> \<not> bucket_fault demo_env
   \<and> ai_run demo_env ''unknown'' = Inl AiError
   \<and> filter is_call (fresh [] (snd (encode demo_env (Body register_unknown)
                                       (demo_world Map.empty [doc1]))))
        = [Render ''unknown'', Put ''doc-9.svg'' ''<svg>unknown</svg>'', AiRun ''unknown'']
   \<and> fst (encode demo_env (Body register_unknown) (demo_world Map.empty [doc1]))
        = Json 500 (Error_message ''Internal server error'')
   \<and> bucket (snd (encode demo_env (Body register_unknown) (demo_world Map.empty [doc1])))
        = [''doc-9.svg'' \<mapsto> ''<svg>unknown</svg>'']
   \<and> entries (snd (encode demo_env (Body register_unknown) (demo_world Map.empty [doc1]))) = [doc1]
   \<and> validateRequest_encode register_goodbye = Inr (''goodbye'', ''doc-2'')
   \<and> render demo_env ''goodbye'' = Inr ''<svg>goodbye</svg>''
   \<and> filter is_call (fresh [] (snd (encode demo_env (Body register_goodbye)
                                       (demo_world Map.empty [doc1]))))
        = [Render ''goodbye'', Put ''doc-2.svg'' ''<svg>goodbye</svg>'', AiRun ''goodbye'',
           Insert ''doc-2'' ''goodbye'' ''[2,4,2,1]'']
   \<and> fst (encode demo_env (Body register_goodbye) (demo_world Map.empty [doc1])) = Json 200 Success
   \<and> entries (snd (encode demo_env (Body register_goodbye) (demo_world Map.empty [doc1])))
        = [doc1, doc2]"
  using registration_steps_in_order[of register_unknown "''unknown''" "''doc-9''"
          "demo_world Map.empty [doc1]" demo_env]
        registration_steps_in_order[of register_goodbye "''goodbye''" "''doc-2''"
          "demo_world Map.empty [doc1]" demo_env]
  by (simp add: first_or_self_def doc2_def)

text \<open>
  C10. A valid registration under an id that already has a row answers 500 and leaves the
  rows as they were; when rendering and the bucket work, the artifact under that id is
  now the rendering of the new text, and when the embedding provider and the database
  answer too, the handler's last steps are the insert and the logging of the violated
  primary key.
\<close>

theorem duplicate_id_overwrites_artifact_only:
  assumes valid: "validateRequest_encode d = Inr (text, ident)"
      and dup: "ident \<in> entry_id ` set (entries w)"
  shows "fst (encode env (Body d) w) = Json 500 (Error_message ''Internal server error'')
     \<and> entries (snd (encode env (Body d) w)) = entries w
     \<and> (\<forall>svg. render env text = Inr svg \<and> \<not> bucket_fault env \<longrightarrow>
           bucket (snd (encode env (Body d) w)) (ident @ ''.svg'') = Some svg
           \<and> (\<forall>resp. ai_run env text = Inr resp \<and> \<not> db_fault env \<longrightarrow>
                 fresh (trace w) (snd (encode env (Body d) w)) =
                   [Render text, Put (ident @ ''.svg'') svg, AiRun text,
                    Log_encode_response resp, Log_encode_length (length (first_or_self resp)),
                    Insert ident text (json_stringify env (first_or_self resp)),
                    Error_encode ConstraintError]))"
  using dup
  by (cases "render env text"; cases "ai_run env text")
     (auto simp: encode_valid[OF valid] fresh_def Let_def)

theorem duplicate_id_overwrites_artifact_only_witness:
  "validateRequest_encode register_goodbye_as_doc1 = Inr (''goodbye'', ''doc-1'')
   \<and> ''doc-1'' \<in> entry_id ` set (entries (demo_world [''doc-1.svg'' \<mapsto> ''<svg>hello world</svg>''] [doc1]))
   \<and> render demo_env ''goodbye'' = Inr ''<svg>goodbye</svg>''
   \<and> \<not> bucket_fault demo_env
   \<and> ai_run demo_env ''goodbye'' = Inr [ [Fin 2, Fin 4, Fin 2, Fin 1] ]
   \<and> \<not> db_fault demo_env
   \<and> fst (encode demo_env (Body register_goodbye_as_doc1)
            (demo_world [''doc-1.svg'' \<mapsto> ''<svg>hello world</svg>''] [doc1]))
        = Json 500 (Error_message ''Internal server error'')
   \<and> entries (snd (encode demo_env (Body register_goodbye_as_doc1)
                     (demo_world [''doc-1.svg'' \<mapsto> ''<svg>hello world</svg>''] [doc1]))) = [doc1]
   \<and> entry_text doc1 = ''hello world''
   \<and> bucket (snd (encode demo_env (Body register_goodbye_as_doc1)
                    (demo_world [''doc-1.svg'' \<mapsto> ''<svg>hello world</svg>''] [doc1]))) ''doc-1.svg''
        = Some ''<svg>goodbye</svg>''
   \<and> fresh [] (snd (encode demo_env (Body register_goodbye_as_doc1)
                      (demo_world [''doc-1.svg'' \<mapsto> ''<svg>hello world</svg>''] [doc1])))
        = [Render ''goodbye'', Put ''doc-1.svg'' ''<svg>goodbye</svg>'', AiRun ''goodbye'',
           Log_encode_response [ [Fin 2, Fin 4, Fin 2, Fin 1] ], Log_encode_length 4,
           Insert ''doc-1'' ''goodbye'' ''[2,4,2,1]'', Error_encode ConstraintError]"
  using duplicate_id_overwrites_artifact_only[of register_goodbye_as_doc1 "''goodbye''" "''doc-1''"
          "demo_world [''doc-1.svg'' \<mapsto> ''<svg>hello world</svg>''] [doc1]" demo_env]
  by (simp add: first_or_self_def)

end

